theory Spec2Isabelle
  imports Complex_Main "HOL-Library.AList" "HOL-Library.Option_ord" "HOL-Library.Multiset"
    "HOL-Library.Char_ord" "HOL-Library.List_Lexorder"
begin

chapter \<open>codemogger: a shallow embedding of the indexing and search pipeline\<close>

text \<open>
  The model follows the TypeScript sources file by file. JavaScript numbers that count
  lines, ranks or rows are \<^typ>\<open>int\<close> or \<^typ>\<open>nat\<close>; the numbers that carry a score are
  \<^typ>\<open>real\<close>, so the arithmetic of the ranking is exact (the rounding of IEEE doubles is
  not part of the model). A \<open>Map\<close> is an association list in insertion order
  (\<^const>\<open>AList.update\<close> is \<open>Map.set\<close>: it overwrites in place and appends a new key), an
  exception is the \<open>Inl\<close> branch of a sum. The fields of the source's interfaces keep
  their names behind a short prefix, because several interfaces share field names.
\<close>

section \<open>Strings\<close>

text \<open>The string operations of the language that the sources use.\<close>

fun startsWith :: "string \<Rightarrow> string \<Rightarrow> bool" where
  "startsWith s [] = True"
| "startsWith [] (p # ps) = False"
| "startsWith (c # cs) (p # ps) = (c = p \<and> startsWith cs ps)"

fun str_includes :: "string \<Rightarrow> string \<Rightarrow> bool" where
  "str_includes [] sub = (sub = [])"
| "str_includes (c # cs) sub = (startsWith (c # cs) sub \<or> str_includes cs sub)"

text \<open>\<open>trim\<close> removes white space at both ends (the ASCII white space characters).\<close>

definition is_space :: "char \<Rightarrow> bool" where
  "is_space c = (c \<in> set [CHR '' '', CHR 0x09, CHR 0x0A, CHR 0x0B, CHR 0x0C, CHR 0x0D])"

definition trim :: "string \<Rightarrow> string" where
  "trim s = rev (dropWhile is_space (rev (dropWhile is_space s)))"

text \<open>\<open>s.split(c)\<close> for a one-character separator: the empty string gives one empty piece.\<close>

fun split_on :: "char \<Rightarrow> string \<Rightarrow> string list" where
  "split_on c [] = [[]]"
| "split_on c (x # xs) =
     (if x = c then [] # split_on c xs
      else (case split_on c xs of [] \<Rightarrow> [[x]] | w # ws \<Rightarrow> (x # w) # ws))"

text \<open>The decimal numeral of a number, as a template literal prints it.\<close>

fun digits :: "nat \<Rightarrow> string" where
  "digits n =
     (if n < 10 then [''0123456789'' ! n]
      else digits (n div 10) @ [''0123456789'' ! (n mod 10)])"

declare digits.simps [simp del]

definition show_int :: "int \<Rightarrow> string" where
  "show_int i = (if i < 0 then CHR ''-'' # digits (nat (- i)) else digits (nat i))"

section \<open>Language registry (src/chunk/languages.ts)\<close>

record LanguageConfig =
  lc_name :: string
  lc_extensions :: "string list"
  lc_wasmPath :: string
  lc_topLevelNodes :: "string list"
  lc_splitNodes :: "string list"

definition RUST :: LanguageConfig where
  "RUST = \<lparr>lc_name = ''rust'', lc_extensions = [''.rs''],
     lc_wasmPath = ''node_modules/tree-sitter-rust/tree-sitter-rust.wasm'',
     lc_topLevelNodes = [''function_item'', ''struct_item'', ''enum_item'', ''impl_item'',
       ''trait_item'', ''type_item'', ''const_item'', ''static_item'', ''macro_definition'',
       ''mod_item''],
     lc_splitNodes = [''impl_item'', ''trait_item'', ''mod_item'']\<rparr>"

definition JAVASCRIPT :: LanguageConfig where
  "JAVASCRIPT = \<lparr>lc_name = ''javascript'', lc_extensions = [''.js'', ''.jsx'', ''.mjs'', ''.cjs''],
     lc_wasmPath = ''node_modules/tree-sitter-javascript/tree-sitter-javascript.wasm'',
     lc_topLevelNodes = [''function_declaration'', ''generator_function_declaration'',
       ''class_declaration'', ''variable_declaration'', ''lexical_declaration'',
       ''export_statement''],
     lc_splitNodes = [''class_declaration'']\<rparr>"

definition TYPESCRIPT :: LanguageConfig where
  "TYPESCRIPT = \<lparr>lc_name = ''typescript'', lc_extensions = [''.ts'', ''.mts'', ''.cts''],
     lc_wasmPath = ''node_modules/tree-sitter-typescript/tree-sitter-typescript.wasm'',
     lc_topLevelNodes = [''function_declaration'', ''generator_function_declaration'',
       ''class_declaration'', ''abstract_class_declaration'', ''interface_declaration'',
       ''type_alias_declaration'', ''enum_declaration'', ''variable_declaration'',
       ''lexical_declaration'', ''export_statement''],
     lc_splitNodes = [''class_declaration'', ''abstract_class_declaration'',
       ''interface_declaration'']\<rparr>"

definition TSX :: LanguageConfig where
  "TSX = \<lparr>lc_name = ''tsx'', lc_extensions = [''.tsx''],
     lc_wasmPath = ''node_modules/tree-sitter-typescript/tree-sitter-tsx.wasm'',
     lc_topLevelNodes = [''function_declaration'', ''generator_function_declaration'',
       ''class_declaration'', ''abstract_class_declaration'', ''interface_declaration'',
       ''type_alias_declaration'', ''enum_declaration'', ''variable_declaration'',
       ''lexical_declaration'', ''export_statement''],
     lc_splitNodes = [''class_declaration'', ''abstract_class_declaration'',
       ''interface_declaration'']\<rparr>"

definition C_LANG :: LanguageConfig where
  "C_LANG = \<lparr>lc_name = ''c'', lc_extensions = [''.c'', ''.h''],
     lc_wasmPath = ''node_modules/tree-sitter-c/tree-sitter-c.wasm'',
     lc_topLevelNodes = [''function_definition'', ''declaration'', ''type_definition'',
       ''enum_specifier'', ''struct_specifier'', ''preproc_def'', ''preproc_function_def''],
     lc_splitNodes = []\<rparr>"

definition PYTHON :: LanguageConfig where
  "PYTHON = \<lparr>lc_name = ''python'', lc_extensions = [''.py'', ''.pyi''],
     lc_wasmPath = ''node_modules/tree-sitter-python/tree-sitter-python.wasm'',
     lc_topLevelNodes = [''function_definition'', ''class_definition'', ''decorated_definition''],
     lc_splitNodes = [''class_definition'']\<rparr>"

definition GO :: LanguageConfig where
  "GO = \<lparr>lc_name = ''go'', lc_extensions = [''.go''],
     lc_wasmPath = ''node_modules/tree-sitter-go/tree-sitter-go.wasm'',
     lc_topLevelNodes = [''function_declaration'', ''method_declaration'', ''type_declaration'',
       ''const_declaration'', ''var_declaration''],
     lc_splitNodes = []\<rparr>"

definition ZIG :: LanguageConfig where
  "ZIG = \<lparr>lc_name = ''zig'', lc_extensions = [''.zig''],
     lc_wasmPath = ''node_modules/@tree-sitter-grammars/tree-sitter-zig/tree-sitter-zig.wasm'',
     lc_topLevelNodes = [''function_declaration'', ''variable_declaration'', ''test_declaration''],
     lc_splitNodes = []\<rparr>"

definition JAVA :: LanguageConfig where
  "JAVA = \<lparr>lc_name = ''java'', lc_extensions = [''.java''],
     lc_wasmPath = ''node_modules/tree-sitter-java/tree-sitter-java.wasm'',
     lc_topLevelNodes = [''class_declaration'', ''interface_declaration'', ''enum_declaration'',
       ''record_declaration''],
     lc_splitNodes = [''class_declaration'', ''interface_declaration'', ''enum_declaration'']\<rparr>"

definition SCALA :: LanguageConfig where
  "SCALA = \<lparr>lc_name = ''scala'', lc_extensions = [''.scala'', ''.sc''],
     lc_wasmPath = ''node_modules/tree-sitter-scala/tree-sitter-scala.wasm'',
     lc_topLevelNodes = [''class_definition'', ''object_definition'', ''trait_definition'',
       ''function_definition'', ''val_definition''],
     lc_splitNodes = [''class_definition'', ''object_definition'', ''trait_definition'']\<rparr>"

definition CPP :: LanguageConfig where
  "CPP = \<lparr>lc_name = ''cpp'',
     lc_extensions = [''.cpp'', ''.cc'', ''.cxx'', ''.hpp'', ''.hh'', ''.hxx''],
     lc_wasmPath = ''node_modules/tree-sitter-cpp/tree-sitter-cpp.wasm'',
     lc_topLevelNodes = [''function_definition'', ''class_specifier'', ''struct_specifier'',
       ''enum_specifier'', ''namespace_definition'', ''template_declaration'', ''declaration''],
     lc_splitNodes = [''class_specifier'', ''struct_specifier'', ''namespace_definition'']\<rparr>"

definition PHP :: LanguageConfig where
  "PHP = \<lparr>lc_name = ''php'', lc_extensions = [''.php''],
     lc_wasmPath = ''node_modules/tree-sitter-php/tree-sitter-php_only.wasm'',
     lc_topLevelNodes = [''class_declaration'', ''interface_declaration'', ''trait_declaration'',
       ''function_definition'', ''enum_declaration''],
     lc_splitNodes = [''class_declaration'', ''interface_declaration'', ''trait_declaration'']\<rparr>"

definition RUBY :: LanguageConfig where
  "RUBY = \<lparr>lc_name = ''ruby'', lc_extensions = [''.rb''],
     lc_wasmPath = ''node_modules/tree-sitter-ruby/tree-sitter-ruby.wasm'',
     lc_topLevelNodes = [''module'', ''class'', ''method'', ''singleton_method'', ''assignment''],
     lc_splitNodes = [''module'', ''class'']\<rparr>"

definition LANGUAGES :: "LanguageConfig list" where
  "LANGUAGES = [RUST, JAVASCRIPT, TYPESCRIPT, TSX, C_LANG, CPP, PYTHON, GO, ZIG, JAVA, SCALA,
     PHP, RUBY]"

text \<open>\<open>EXT_MAP\<close> is filled language by language, extension by extension.\<close>

definition EXT_MAP :: "(string \<times> LanguageConfig) list" where
  "EXT_MAP =
     fold (\<lambda>lang m. fold (\<lambda>ext m'. AList.update ext lang m') (lc_extensions lang) m) LANGUAGES []"

text \<open>
  \<open>filePath.slice(filePath.lastIndexOf("."))\<close>: the text from the last dot on, none when
  the path has no dot.
\<close>

definition extension_of :: "string \<Rightarrow> string option" where
  "extension_of filePath =
     (if CHR ''.'' \<in> set filePath
      then Some (CHR ''.'' # rev (takeWhile (\<lambda>c. c \<noteq> CHR ''.'') (rev filePath)))
      else None)"

definition detectLanguage :: "string \<Rightarrow> LanguageConfig option" where
  "detectLanguage filePath =
     (case extension_of filePath of None \<Rightarrow> None | Some ext \<Rightarrow> map_of EXT_MAP ext)"

section \<open>Scanner (src/scan/walker.ts)\<close>

record ScannedFile =
  sf_absPath :: string
  sf_relPath :: string
  sf_language :: string
  sf_hash :: string
  sf_content :: string

definition ALWAYS_IGNORE :: "string list" where
  "ALWAYS_IGNORE = [''.git'', ''node_modules'', ''target'', ''build'', ''dist'', ''.next'',
     ''__pycache__'', ''.tox'', ''.venv'', ''venv'', ''.mypy_cache'', ''.cargo'', ''.rustup'']"

text \<open>\<open>trimmed.replace(/\/$/, '')\<close>: one slash at the end is removed.\<close>

definition strip_trailing_slash :: "string \<Rightarrow> string" where
  "strip_trailing_slash s = (if s \<noteq> [] \<and> last s = CHR ''/'' then butlast s else s)"

text \<open>The body of the loop of \<open>loadIgnorePatterns\<close>, and the loop over the lines.\<close>

definition ignore_line :: "string \<Rightarrow> string list \<Rightarrow> string list" where
  "ignore_line line patterns =
     (let trimmed = trim line in
      if trimmed = [] \<or> startsWith trimmed ''#'' then patterns
      else (let clean = strip_trailing_slash trimmed in
            if clean \<noteq> [] \<and> \<not> str_includes clean ''*'' then List.insert clean patterns
            else patterns))"

definition loadIgnorePatterns :: "string \<Rightarrow> string list" where
  "loadIgnorePatterns content = fold ignore_line (split_on (CHR 0x0A) content) []"

text \<open>
  The file system below the scan root, as \<open>readdir\<close>, \<open>stat\<close> and \<open>readFile\<close> see it. An
  \<open>Inl\<close> is the text of the error that the call throws. A file carries the result of
  \<open>stat\<close> (its size in bytes) and of \<open>readFile\<close>; a directory carries its listing; the third
  kind of entry is neither (a socket, a link). The content hash is a parameter of the
  scan, which stands for SHA-256 in hexadecimal.
\<close>

datatype fs_entry =
    FsFile string "string + nat" "string + string"
  | FsDir string "string + fs_entry list"
  | FsOther string

fun entry_name :: "fs_entry \<Rightarrow> string" where
  "entry_name (FsFile nm st rd) = nm"
| "entry_name (FsDir nm listing) = nm"
| "entry_name (FsOther nm) = nm"

text \<open>A measure of an entry and of a listing, for the recursion of the walk.\<close>

fun fs_size :: "fs_entry \<Rightarrow> nat" and fs_sizes :: "fs_entry list \<Rightarrow> nat" where
  "fs_size (FsFile nm st rd) = 1"
| "fs_size (FsDir nm (Inl err)) = 1"
| "fs_size (FsDir nm (Inr es)) = fs_sizes es + 3"
| "fs_size (FsOther nm) = 1"
| "fs_sizes [] = 1"
| "fs_sizes (e # es) = fs_size e + fs_sizes es + 1"

text \<open>\<open>join(dir, name)\<close> and \<open>relative(rootDir, fullPath)\<close> for a path below the root.\<close>

definition join_path :: "string \<Rightarrow> string \<Rightarrow> string" where
  "join_path dir nm = dir @ ''/'' @ nm"

definition relative_path :: "string \<Rightarrow> string \<Rightarrow> string" where
  "relative_path rootDir fullPath = drop (length rootDir + 1) fullPath"

text \<open>The three name tests at the head of the loop body of \<open>walk\<close>.\<close>

definition name_skipped :: "string list \<Rightarrow> string \<Rightarrow> bool" where
  "name_skipped ignorePatterns nm =
     ((startsWith nm ''.'' \<and> nm \<noteq> ''.'') \<or> nm \<in> set ALWAYS_IGNORE \<or> nm \<in> set ignorePatterns)"

text \<open>
  The variables that the closure \<open>walk\<close> captures: the hash function, the scan root, the
  ignore patterns and the language filter.
\<close>

record scan_ctx =
  sc_hash :: "string \<Rightarrow> string"
  sc_rootDir :: string
  sc_ignorePatterns :: "string list"
  sc_langFilter :: "string list option"

text \<open>What the loop body of \<open>walk\<close> does with a regular file whose name passed the name tests.\<close>

definition walk_file ::
  "scan_ctx \<Rightarrow> string \<Rightarrow> string \<Rightarrow> string + nat \<Rightarrow> string + string \<Rightarrow>
   ScannedFile list \<times> string list \<Rightarrow> ScannedFile list \<times> string list" where
  "walk_file ctx dir nm st rd acc =
     (case detectLanguage nm of
        None \<Rightarrow> acc
      | Some langConfig \<Rightarrow>
          (if (case sc_langFilter ctx of None \<Rightarrow> False
               | Some ls \<Rightarrow> lc_name langConfig \<notin> set ls)
           then acc
           else (case st of
                   Inl err \<Rightarrow>
                     (fst acc, snd acc @ [''cannot read '' @ join_path dir nm @ '': '' @ err])
                 | Inr sz \<Rightarrow>
                     (if sz = 0 \<or> sz > 1000000 then acc
                      else (case rd of
                              Inl err \<Rightarrow>
                                (fst acc,
                                 snd acc @ [''cannot read '' @ join_path dir nm @ '': '' @ err])
                            | Inr content \<Rightarrow>
                                (fst acc @
                                   [\<lparr>sf_absPath = join_path dir nm,
                                     sf_relPath = relative_path (sc_rootDir ctx) (join_path dir nm),
                                     sf_language = lc_name langConfig,
                                     sf_hash = sc_hash ctx content,
                                     sf_content = content\<rparr>],
                                 snd acc))))))"

text \<open>
  \<open>walk\<close> with its loop and loop body. The state is the pair of the arrays \<open>files\<close> and
  \<open>errors\<close> that the closure appends to.
\<close>

function (sequential) walk ::
    "scan_ctx \<Rightarrow> string \<Rightarrow> string + fs_entry list \<Rightarrow>
     ScannedFile list \<times> string list \<Rightarrow> ScannedFile list \<times> string list"
  and walk_entries ::
    "scan_ctx \<Rightarrow> string \<Rightarrow> fs_entry list \<Rightarrow>
     ScannedFile list \<times> string list \<Rightarrow> ScannedFile list \<times> string list"
  and walk_entry ::
    "scan_ctx \<Rightarrow> string \<Rightarrow> fs_entry \<Rightarrow>
     ScannedFile list \<times> string list \<Rightarrow> ScannedFile list \<times> string list" where
  "walk ctx dir (Inl err) acc = (fst acc, snd acc @ [''cannot read '' @ dir @ '': '' @ err])"
| "walk ctx dir (Inr entries) acc = walk_entries ctx dir entries acc"
| "walk_entries ctx dir [] acc = acc"
| "walk_entries ctx dir (e # es) acc = walk_entries ctx dir es (walk_entry ctx dir e acc)"
| "walk_entry ctx dir (FsDir nm listing) acc =
     (if name_skipped (sc_ignorePatterns ctx) nm then acc
      else walk ctx (join_path dir nm) listing acc)"
| "walk_entry ctx dir (FsOther nm) acc = acc"
| "walk_entry ctx dir (FsFile nm st rd) acc =
     (if name_skipped (sc_ignorePatterns ctx) nm then acc
      else walk_file ctx dir nm st rd acc)"
  by pat_completeness auto

termination
  by (relation "measure (\<lambda>x. case x of
         Inl (ctx, dir, listing, acc) \<Rightarrow> (case listing of Inl e \<Rightarrow> 0 | Inr es \<Rightarrow> fs_sizes es + 1)
       | Inr (Inl (ctx, dir, es, acc)) \<Rightarrow> fs_sizes es
       | Inr (Inr (ctx, dir, e, acc)) \<Rightarrow> fs_size e)")
     (auto split: sum.splits)

text \<open>
  \<open>readFile(join(rootDir, '.gitignore'))\<close> in the \<open>try\<close> block of \<open>scanDirectory\<close>: the
  content when the root holds a readable file of that name, otherwise the call throws and
  the pattern set stays empty.
\<close>

definition read_gitignore :: "string + fs_entry list \<Rightarrow> string option" where
  "read_gitignore listing =
     (case listing of
        Inl err \<Rightarrow> None
      | Inr entries \<Rightarrow>
          (case find (\<lambda>e. entry_name e = ''.gitignore'') entries of
             Some (FsFile nm st (Inr content)) \<Rightarrow> Some content
           | _ \<Rightarrow> None))"

definition scanDirectory ::
  "(string \<Rightarrow> string) \<Rightarrow> string \<Rightarrow> string list option \<Rightarrow> string + fs_entry list \<Rightarrow>
   ScannedFile list \<times> string list" where
  "scanDirectory H rootDir languages listing =
     (let ignorePatterns =
            (case read_gitignore listing of
               None \<Rightarrow> []
             | Some gitignore \<Rightarrow> loadIgnorePatterns gitignore)
      in walk \<lparr>sc_hash = H, sc_rootDir = rootDir, sc_ignorePatterns = ignorePatterns,
                 sc_langFilter = languages\<rparr> rootDir listing ([], []))"

section \<open>Chunker (src/chunk/types.ts, src/chunk/treesitter.ts)\<close>

record CodeChunk =
  cc_chunkKey :: string
  cc_filePath :: string
  cc_language :: string
  cc_kind :: string
  cc_name :: string
  cc_signature :: string
  cc_snippet :: string
  cc_startLine :: int
  cc_endLine :: int
  cc_fileHash :: string

definition MAX_CHUNK_LINES :: int where
  "MAX_CHUNK_LINES = 150"

text \<open>
  A node of the syntax tree that the parser returns, with what the chunker reads of it:
  its type, whether it is a named node, the field name under which its parent holds it,
  the rows of its start and end positions (counted from 0), its text and its children.
\<close>

datatype SyntaxNode =
  SyntaxNode (n_type: string) (n_isNamed: bool) (n_field: "string option")
    (n_startRow: int) (n_endRow: int) (n_text: string) (n_children: "SyntaxNode list")

definition childForFieldName :: "SyntaxNode \<Rightarrow> string \<Rightarrow> SyntaxNode option" where
  "childForFieldName node f = find (\<lambda>c. n_field c = Some f) (n_children node)"

definition namedChildren :: "SyntaxNode \<Rightarrow> SyntaxNode list" where
  "namedChildren node = filter n_isNamed (n_children node)"

definition unwrapExport :: "SyntaxNode \<Rightarrow> SyntaxNode option" where
  "unwrapExport node =
     (if n_type node \<noteq> ''export_statement'' then None
      else find (\<lambda>child. n_type child \<noteq> ''decorator'' \<and> n_type child \<noteq> ''comment'')
             (namedChildren node))"

text \<open>The inner declaration of a C++ template declaration.\<close>

definition template_inner :: "SyntaxNode \<Rightarrow> SyntaxNode option" where
  "template_inner node = find (\<lambda>c. n_type c \<noteq> ''template_parameter_list'') (namedChildren node)"

text \<open>\<open>str.text.replace(/^"|"$/g, "")\<close>: one double quote is removed at each end.\<close>

definition strip_quotes :: "string \<Rightarrow> string" where
  "strip_quotes s =
     (let s1 = (if s \<noteq> [] \<and> hd s = CHR 0x22 then tl s else s)
      in if s1 \<noteq> [] \<and> last s1 = CHR 0x22 then butlast s1 else s1)"

text \<open>
  The rules of \<open>extractName\<close> for a node that is no wrapper, in the order of the source:
  a rule that does not return falls through to the next one.
\<close>

definition name_singleton_method :: "SyntaxNode \<Rightarrow> string option" where
  "name_singleton_method node =
     (if n_type node = ''singleton_method'' then
        (case (childForFieldName node ''object'', childForFieldName node ''name'') of
           (Some obj, Some nameNode) \<Rightarrow> Some (n_text obj @ ''.'' @ n_text nameNode)
         | (None, Some nameNode) \<Rightarrow> Some (n_text nameNode)
         | _ \<Rightarrow> None)
      else None)"

definition name_function_definition :: "SyntaxNode \<Rightarrow> string option" where
  "name_function_definition node =
     (if n_type node = ''function_definition'' then
        (case childForFieldName node ''declarator'' of
           None \<Rightarrow> None
         | Some declarator \<Rightarrow>
             (if n_type declarator = ''function_declarator''
              then map_option n_text (childForFieldName declarator ''declarator'')
              else None))
      else None)"

definition name_type_definition :: "SyntaxNode \<Rightarrow> string option" where
  "name_type_definition node =
     (if n_type node = ''type_definition''
      then map_option n_text (find (\<lambda>c. n_type c = ''type_identifier'') (namedChildren node))
      else None)"

definition name_method_declaration :: "SyntaxNode \<Rightarrow> string option" where
  "name_method_declaration node =
     (if n_type node = ''method_declaration'' then
        (case childForFieldName node ''name'' of
           None \<Rightarrow> None
         | Some nameNode \<Rightarrow>
             (case childForFieldName node ''receiver'' of
                None \<Rightarrow> Some (n_text nameNode)
              | Some receiver \<Rightarrow>
                  (case namedChildren receiver of
                     [] \<Rightarrow> Some (n_text nameNode)
                   | param # _ \<Rightarrow>
                       (case childForFieldName param ''type'' of
                          None \<Rightarrow> Some (n_text nameNode)
                        | Some paramType \<Rightarrow> Some (n_text paramType @ ''.'' @ n_text nameNode)))))
      else None)"

definition name_of_spec :: "SyntaxNode option \<Rightarrow> string option" where
  "name_of_spec spec =
     (case spec of
        None \<Rightarrow> None
      | Some sp \<Rightarrow> map_option n_text (childForFieldName sp ''name''))"

definition name_type_declaration :: "SyntaxNode \<Rightarrow> string option" where
  "name_type_declaration node =
     (if n_type node = ''type_declaration''
      then name_of_spec (find (\<lambda>c. n_type c = ''type_spec'') (namedChildren node))
      else None)"

definition name_const_var_declaration :: "SyntaxNode \<Rightarrow> string option" where
  "name_const_var_declaration node =
     (if n_type node = ''const_declaration'' \<or> n_type node = ''var_declaration''
      then name_of_spec
             (find (\<lambda>c. n_type c = ''const_spec'' \<or> n_type c = ''var_spec'') (namedChildren node))
      else None)"

definition name_val_definition :: "SyntaxNode \<Rightarrow> string option" where
  "name_val_definition node =
     (if n_type node = ''val_definition''
      then map_option n_text (childForFieldName node ''pattern'')
      else None)"

definition name_variable_declaration :: "SyntaxNode \<Rightarrow> string option" where
  "name_variable_declaration node =
     (if n_type node = ''variable_declaration''
      then map_option n_text (find (\<lambda>c. n_type c = ''identifier'') (namedChildren node))
      else None)"

definition name_test_declaration :: "SyntaxNode \<Rightarrow> string option" where
  "name_test_declaration node =
     (if n_type node = ''test_declaration''
      then map_option (\<lambda>str. strip_quotes (n_text str))
             (find (\<lambda>c. n_type c = ''string'' \<or> n_type c = ''string_literal'') (namedChildren node))
      else None)"

definition name_common_fields :: "SyntaxNode \<Rightarrow> string option" where
  "name_common_fields node =
     (case List.map_filter (childForFieldName node) [''name'', ''identifier'', ''type_identifier''] of
        [] \<Rightarrow> None
      | child # _ \<Rightarrow> Some (n_text child))"

definition name_impl :: "SyntaxNode \<Rightarrow> string option" where
  "name_impl node =
     (case childForFieldName node ''type'' of
        None \<Rightarrow> None
      | Some typeNode \<Rightarrow>
          (case childForFieldName node ''trait'' of
             None \<Rightarrow> Some (n_text typeNode)
           | Some traitNode \<Rightarrow> Some (n_text traitNode @ '' for '' @ n_text typeNode)))"

definition name_lexical_declaration :: "SyntaxNode \<Rightarrow> string option" where
  "name_lexical_declaration node =
     (if n_type node = ''lexical_declaration''
      then name_of_spec (find (\<lambda>c. n_type c = ''variable_declarator'') (namedChildren node))
      else None)"

text \<open>
  The first rule that returns decides. A Ruby assignment returns in both branches, so the
  rules behind it are not reached for such a node.
\<close>

definition extractName_plain :: "SyntaxNode \<Rightarrow> string" where
  "extractName_plain node =
     (case name_singleton_method node of
        Some s \<Rightarrow> s
      | None \<Rightarrow>
          (if n_type node = ''assignment'' then
             (case namedChildren node of [] \<Rightarrow> [] | left # _ \<Rightarrow> n_text left)
           else
             (case find (\<lambda>r. r \<noteq> None)
                     [name_function_definition node, name_type_definition node,
                      name_method_declaration node, name_type_declaration node,
                      name_const_var_declaration node, name_val_definition node,
                      name_variable_declaration node, name_test_declaration node,
                      name_common_fields node, name_impl node, name_lexical_declaration node] of
                Some (Some s) \<Rightarrow> s
              | _ \<Rightarrow> [])))"

text \<open>
  \<open>extractName\<close> unwraps an export, a decorated definition and a template first. The
  recursion descends to a child, which is smaller than its parent.
\<close>

lemma child_size: "c \<in> set (n_children node) \<Longrightarrow> size c < size node"
  by (cases node) (auto simp: less_Suc_eq_le dest: size_list_estimation')

lemma find_in_set: "find P xs = Some x \<Longrightarrow> x \<in> set xs"
  by (induction xs) (auto split: if_splits)

function extractName :: "SyntaxNode \<Rightarrow> string" where
  "extractName node =
     (if n_type node = ''export_statement'' then
        (case unwrapExport node of Some inner \<Rightarrow> extractName inner | None \<Rightarrow> [])
      else if n_type node = ''decorated_definition'' then
        (case childForFieldName node ''definition'' of
           Some inner \<Rightarrow> extractName inner | None \<Rightarrow> [])
      else if n_type node = ''template_declaration'' then
        (case template_inner node of Some inner \<Rightarrow> extractName inner | None \<Rightarrow> [])
      else extractName_plain node)"
  by pat_completeness auto

termination extractName
  by (relation "measure size")
     (auto simp: unwrapExport_def childForFieldName_def template_inner_def namedChildren_def
        dest!: find_in_set intro: child_size split: if_splits)

declare extractName.simps [simp del]

text \<open>
  The variables that the closures of \<open>chunkFile\<close> capture: the path and the hash of the
  file, the lines of its content and the language descriptor.
\<close>

record chunk_ctx =
  cx_filePath :: string
  cx_fileHash :: string
  cx_sourceLines :: "string list"
  cx_config :: LanguageConfig

text \<open>\<open>sourceLines[startLine]?.trim() ?? ""\<close>\<close>

definition extractSignature :: "SyntaxNode \<Rightarrow> string list \<Rightarrow> string" where
  "extractSignature node sourceLines =
     (if 0 \<le> n_startRow node \<and> n_startRow node < int (length sourceLines)
      then trim (sourceLines ! nat (n_startRow node))
      else [])"

definition makeChunk :: "chunk_ctx \<Rightarrow> SyntaxNode \<Rightarrow> string \<Rightarrow> CodeChunk" where
  "makeChunk ctx node kind =
     (let startLine = n_startRow node + 1;
          endLine = n_endRow node + 1
      in \<lparr>cc_chunkKey = cx_filePath ctx @ '':'' @ show_int startLine @ '':'' @ show_int endLine,
          cc_filePath = cx_filePath ctx,
          cc_language = lc_name (cx_config ctx),
          cc_kind = kind,
          cc_name = extractName node,
          cc_signature = extractSignature node (cx_sourceLines ctx),
          cc_snippet = n_text node,
          cc_startLine = startLine,
          cc_endLine = endLine,
          cc_fileHash = cx_fileHash ctx\<rparr>)"

definition nodeKind :: "string \<Rightarrow> string" where
  "nodeKind type =
     (if str_includes type ''function'' \<or> type = ''function_item'' then ''function''
      else if str_includes type ''struct'' then ''struct''
      else if str_includes type ''enum'' then ''enum''
      else if str_includes type ''impl'' then ''impl''
      else if str_includes type ''trait'' then ''trait''
      else if type = ''type_item'' \<or> type = ''type_alias_declaration'' \<or>
              type = ''type_definition'' \<or> type = ''type_declaration'' then ''type''
      else if str_includes type ''const'' then ''const''
      else if str_includes type ''static'' then ''static''
      else if str_includes type ''macro'' \<or> type = ''preproc_def'' \<or>
              type = ''preproc_function_def'' then ''macro''
      else if type = ''namespace_definition'' then ''namespace''
      else if type = ''template_declaration'' then ''template''
      else if str_includes type ''mod'' then ''module''
      else if str_includes type ''class'' then ''class''
      else if type = ''method_declaration'' then ''method''
      else if str_includes type ''method'' then ''method''
      else if str_includes type ''interface'' then ''interface''
      else if type = ''variable_declaration'' \<or> type = ''lexical_declaration'' \<or>
              type = ''var_declaration'' \<or> type = ''val_definition'' \<or>
              type = ''assignment'' then ''variable''
      else if type = ''declaration'' then ''declaration''
      else if type = ''decorated_definition'' then ''function''
      else if type = ''test_declaration'' then ''test''
      else if type = ''object_definition'' then ''object''
      else if type = ''record_declaration'' then ''record''
      else if type = ''constructor_declaration'' then ''constructor''
      else type)"

text \<open>\<open>node.endPosition.row - node.startPosition.row + 1\<close>\<close>

definition lineCount :: "SyntaxNode \<Rightarrow> int" where
  "lineCount node = n_endRow node - n_startRow node + 1"

definition bodyWrappers :: "string list" where
  "bodyWrappers = [''class_body'', ''declaration_list'', ''field_declaration_list'',
     ''body_statement'', ''block'']"

definition isSubItem :: "chunk_ctx \<Rightarrow> string \<Rightarrow> bool" where
  "isSubItem ctx type =
     (type \<in> set (lc_topLevelNodes (cx_config ctx)) \<or> str_includes type ''function'' \<or>
      str_includes type ''method'' \<or> str_includes type ''constructor'')"

text \<open>
  The chunks that the loop of \<open>splitLargeNode\<close> pushes for one child \<open>sub\<close> of the node:
  the child itself when it is a sub-item, else the sub-items inside a body wrapper.
\<close>

definition sub_chunks :: "chunk_ctx \<Rightarrow> SyntaxNode \<Rightarrow> CodeChunk list" where
  "sub_chunks ctx sub =
     (if isSubItem ctx (n_type sub) then [makeChunk ctx sub (nodeKind (n_type sub))]
      else if n_type sub \<in> set bodyWrappers then
        map (\<lambda>inner. makeChunk ctx inner (nodeKind (n_type inner)))
          (filter (\<lambda>inner. isSubItem ctx (n_type inner)) (n_children sub))
      else [])"

text \<open>
  \<open>splitLargeNode\<close>: \<open>hasSubItems\<close> is set exactly when the loop has pushed a chunk, so
  the whole block is emitted exactly when the loop pushed none.
\<close>

definition splitLargeNode :: "chunk_ctx \<Rightarrow> SyntaxNode \<Rightarrow> SyntaxNode \<Rightarrow> CodeChunk list" where
  "splitLargeNode ctx node outerNode =
     (let pushed = concat (map (sub_chunks ctx) (n_children node))
      in if pushed = [] then [makeChunk ctx outerNode (nodeKind (n_type node))] else pushed)"

text \<open>
  The step that three branches of \<open>processNode\<close> share: the outer node is emitted whole
  when it is short enough or the inner node is not splittable, else the inner node is split.
\<close>

definition emit_or_split :: "chunk_ctx \<Rightarrow> SyntaxNode \<Rightarrow> SyntaxNode \<Rightarrow> CodeChunk list" where
  "emit_or_split ctx inner node =
     (if lineCount node \<le> MAX_CHUNK_LINES \<or> n_type inner \<notin> set (lc_splitNodes (cx_config ctx))
      then [makeChunk ctx node (nodeKind (n_type inner))]
      else splitLargeNode ctx inner node)"

text \<open>The top-level nodes that are neither an export, nor decorated, nor a template.\<close>

definition process_plain :: "chunk_ctx \<Rightarrow> SyntaxNode \<Rightarrow> CodeChunk list" where
  "process_plain ctx node =
     (if n_type node \<notin> set (lc_topLevelNodes (cx_config ctx)) then []
      else emit_or_split ctx node node)"

text \<open>\<open>processNode\<close>: the chunks it pushes for one child of the root.\<close>

definition processNode :: "chunk_ctx \<Rightarrow> SyntaxNode \<Rightarrow> CodeChunk list" where
  "processNode ctx node =
     (if n_type node = ''export_statement'' then
        (case unwrapExport node of
           None \<Rightarrow> []
         | Some inner \<Rightarrow>
             (if n_type inner \<in> set (lc_topLevelNodes (cx_config ctx))
              then emit_or_split ctx inner node
              else if str_includes (n_type inner) ''function'' \<or> str_includes (n_type inner) ''class''
              then [makeChunk ctx node (nodeKind (n_type inner))]
              else []))
      else if n_type node = ''decorated_definition'' then
        (case childForFieldName node ''definition'' of
           Some inner \<Rightarrow> emit_or_split ctx inner node
         | None \<Rightarrow> process_plain ctx node)
      else if n_type node = ''template_declaration'' then
        (case template_inner node of
           Some inner \<Rightarrow> emit_or_split ctx inner node
         | None \<Rightarrow> process_plain ctx node)
      else process_plain ctx node)"

text \<open>
  \<open>chunkFile\<close>. The parser and the grammars are outside the repository: \<open>parse\<close> stands
  for \<open>ensureParser\<close>, \<open>getLanguage\<close> and \<open>p.parse(content)\<close> together and gives the text of
  the exception that one of them throws, or the root node, or nothing when the parser
  returns no tree.
\<close>

definition chunkFile ::
  "(LanguageConfig \<Rightarrow> string \<Rightarrow> string + SyntaxNode option) \<Rightarrow>
   string \<Rightarrow> string \<Rightarrow> string \<Rightarrow> LanguageConfig \<Rightarrow> string + CodeChunk list" where
  "chunkFile parse filePath content fileHash config =
     (case parse config content of
        Inl err \<Rightarrow> Inl err
      | Inr None \<Rightarrow> Inr []
      | Inr (Some rootNode) \<Rightarrow>
          Inr (concat (map (processNode
                 \<lparr>cx_filePath = filePath, cx_fileHash = fileHash,
                  cx_sourceLines = split_on (CHR 0x0A) content, cx_config = config\<rparr>)
                 (n_children rootNode))))"

subsection \<open>What the specification says of the split\<close>

text \<open>
  The span of a chunk in lines; the recognized members of a node, as the specification
  describes them: a child, or a child of a child that is a body wrapper, whose kind is in
  the top-level set or contains \<open>function\<close>, \<open>method\<close> or \<open>constructor\<close>; and the
  declaration that decides about a top-level node, which is the node itself unless the
  node is an export, a decorated definition or a template with an inner declaration.
\<close>

definition chunk_lines :: "CodeChunk \<Rightarrow> int" where
  "chunk_lines c = cc_endLine c - cc_startLine c + 1"

definition has_members :: "chunk_ctx \<Rightarrow> SyntaxNode \<Rightarrow> bool" where
  "has_members ctx node =
     list_ex (\<lambda>sub. isSubItem ctx (n_type sub) \<or>
                   (n_type sub \<in> set bodyWrappers \<and>
                    list_ex (\<lambda>inner. isSubItem ctx (n_type inner)) (n_children sub)))
       (n_children node)"

definition member_nodes :: "chunk_ctx \<Rightarrow> SyntaxNode \<Rightarrow> SyntaxNode list" where
  "member_nodes ctx node =
     concat (map (\<lambda>sub. if isSubItem ctx (n_type sub) then [sub]
                          else if n_type sub \<in> set bodyWrappers
                          then filter (\<lambda>inner. isSubItem ctx (n_type inner)) (n_children sub)
                          else [])
               (n_children node))"

definition declaration_of :: "SyntaxNode \<Rightarrow> SyntaxNode option" where
  "declaration_of node =
     (if n_type node = ''export_statement'' then unwrapExport node
      else if n_type node = ''decorated_definition'' then
        (case childForFieldName node ''definition'' of Some inner \<Rightarrow> Some inner | None \<Rightarrow> Some node)
      else if n_type node = ''template_declaration'' then
        (case template_inner node of Some inner \<Rightarrow> Some inner | None \<Rightarrow> Some node)
      else Some node)"

text \<open>
  The bound as the claim words it, for a chunk \<open>c\<close> whose source node is \<open>node\<close>: when
  neither the kind of the chunk nor the type of the node is in the splittable set, the
  chunk spans at most 150 lines, or else the node spans more and has no recognized member.
\<close>

definition split_bound_claim :: "chunk_ctx \<Rightarrow> SyntaxNode \<Rightarrow> CodeChunk \<Rightarrow> bool" where
  "split_bound_claim ctx node c =
     (cc_kind c \<notin> set (lc_splitNodes (cx_config ctx)) \<and>
      n_type node \<notin> set (lc_splitNodes (cx_config ctx)) \<longrightarrow>
        chunk_lines c \<le> 150 \<or> (lineCount node > 150 \<and> \<not> has_members ctx node))"

text \<open>
  A Rust function of 200 lines with a nested function on its second line, as the parser
  reports it, and the context of the file that holds nothing else.
\<close>

definition big_text :: string where
  "big_text = ''fn outer() {'' @ [CHR 0x0A] @ ''fn inner() {}'' @ replicate 198 (CHR 0x0A) @ ''}''"

definition big_function :: SyntaxNode where
  "big_function =
     SyntaxNode ''function_item'' True None 0 199 big_text
       [SyntaxNode ''identifier'' True (Some ''name'') 0 0 ''outer'' [],
        SyntaxNode ''block'' True (Some ''body'') 0 199 (drop 11 big_text)
          [SyntaxNode ''function_item'' True None 1 1 ''fn inner() {}''
             [SyntaxNode ''identifier'' True (Some ''name'') 1 1 ''inner'' []]]]"

definition big_ctx :: chunk_ctx where
  "big_ctx = \<lparr>cx_filePath = ''/repo/big.rs'', cx_fileHash = ''h'',
      cx_sourceLines = split_on (CHR 0x0A) big_text, cx_config = RUST\<rparr>"

section \<open>Store (src/db/schema.ts, src/db/store.ts)\<close>

subsection \<open>Tables\<close>

text \<open>
  The rows of the three tables of the schema and of a per-codebase text table. A
  \<open>NULL\<close> embedding is \<open>None\<close>. The counters are the \<open>AUTOINCREMENT\<close> sequences.
\<close>

record codebase_row =
  cb_id :: nat
  cb_root_path :: string
  cb_name :: string
  cb_indexed_at :: int

record chunk_row =
  ch_id :: nat
  ch_codebase_id :: nat
  ch_file_path :: string
  ch_chunk_key :: string
  ch_language :: string
  ch_kind :: string
  ch_name :: string
  ch_signature :: string
  ch_snippet :: string
  ch_start_line :: int
  ch_end_line :: int
  ch_file_hash :: string
  ch_indexed_at :: int
  ch_embedding :: "real list option"
  ch_embedding_model :: string

record file_row =
  if_id :: nat
  if_codebase_id :: nat
  if_file_path :: string
  if_file_hash :: string
  if_chunk_count :: nat
  if_indexed_at :: int

record fts_row =
  ft_chunk_id :: nat
  ft_name :: string
  ft_signature :: string

record tables =
  t_codebases :: "codebase_row list"
  t_chunks :: "chunk_row list"
  t_indexed_files :: "file_row list"
  t_fts :: "(nat \<times> fts_row list) list"
  t_seq_codebases :: nat
  t_seq_chunks :: nat
  t_seq_files :: nat

text \<open>
  The database connection: the tables, the snapshot that an open transaction restores on
  \<open>ROLLBACK\<close>, and the number of calls made so far. The storage engine is outside the
  repository. A call to it may throw; which calls do is a parameter of the model, a
  function from the number of the call to the message of the error it throws.
\<close>

record db =
  db_tables :: tables
  db_snapshot :: "tables option"
  db_calls :: nat

datatype error =
    StorageError string
  | EmbedderError string
  | UnsearchableError nat

type_synonym faults = "nat \<Rightarrow> string option"

text \<open>Sequencing of calls that may throw: the first error ends the sequence.\<close>

definition bind_db ::
  "(error + 'a) \<times> db \<Rightarrow> ('a \<Rightarrow> db \<Rightarrow> (error + 'b) \<times> db) \<Rightarrow> (error + 'b) \<times> db" where
  "bind_db m f = (case m of (Inl e, d) \<Rightarrow> (Inl e, d) | (Inr a, d) \<Rightarrow> f a d)"

text \<open>
  One call of a prepared statement or of \<open>db.exec\<close>: it throws, or it returns a value and
  leaves new tables.
\<close>

definition db_call :: "faults \<Rightarrow> (tables \<Rightarrow> 'a \<times> tables) \<Rightarrow> db \<Rightarrow> (error + 'a) \<times> db" where
  "db_call F f d =
     (case F (db_calls d) of
        Some msg \<Rightarrow> (Inl (StorageError msg), d\<lparr>db_calls := db_calls d + 1\<rparr>)
      | None \<Rightarrow>
          (Inr (fst (f (db_tables d))),
           d\<lparr>db_tables := snd (f (db_tables d)), db_calls := db_calls d + 1\<rparr>))"

definition db_exec :: "faults \<Rightarrow> (tables \<Rightarrow> tables) \<Rightarrow> db \<Rightarrow> (error + unit) \<times> db" where
  "db_exec F f d = db_call F (\<lambda>t. ((), f t)) d"

definition db_query :: "faults \<Rightarrow> (tables \<Rightarrow> 'a) \<Rightarrow> db \<Rightarrow> (error + 'a) \<times> db" where
  "db_query F f d = db_call F (\<lambda>t. (f t, t)) d"

text \<open>
  \<open>BEGIN\<close> keeps the tables as they are, \<open>COMMIT\<close> drops what was kept, \<open>ROLLBACK\<close>
  puts it back. The engine's \<open>ROLLBACK\<close> after a failed statement is taken to succeed.
\<close>

definition sql_begin :: "faults \<Rightarrow> db \<Rightarrow> (error + unit) \<times> db" where
  "sql_begin F d =
     (case F (db_calls d) of
        Some msg \<Rightarrow> (Inl (StorageError msg), d\<lparr>db_calls := db_calls d + 1\<rparr>)
      | None \<Rightarrow> (Inr (), d\<lparr>db_snapshot := Some (db_tables d), db_calls := db_calls d + 1\<rparr>))"

definition sql_commit :: "faults \<Rightarrow> db \<Rightarrow> (error + unit) \<times> db" where
  "sql_commit F d =
     (case F (db_calls d) of
        Some msg \<Rightarrow> (Inl (StorageError msg), d\<lparr>db_calls := db_calls d + 1\<rparr>)
      | None \<Rightarrow> (Inr (), d\<lparr>db_snapshot := None, db_calls := db_calls d + 1\<rparr>))"

definition sql_rollback :: "db \<Rightarrow> db" where
  "sql_rollback d =
     d\<lparr>db_tables := (case db_snapshot d of None \<Rightarrow> db_tables d | Some t \<Rightarrow> t),
       db_snapshot := None, db_calls := db_calls d + 1\<rparr>"

text \<open>\<open>try { body; COMMIT } catch (e) { ROLLBACK; throw e }\<close> after a \<open>BEGIN\<close>.\<close>

definition in_transaction ::
  "faults \<Rightarrow> (db \<Rightarrow> (error + 'a) \<times> db) \<Rightarrow> db \<Rightarrow> (error + 'a) \<times> db" where
  "in_transaction F body d =
     bind_db (sql_begin F d) (\<lambda>_ d1.
       (case bind_db (body d1) (\<lambda>r d2. bind_db (sql_commit F d2) (\<lambda>_ d3. (Inr r, d3))) of
          (Inl e, d4) \<Rightarrow> (Inl e, sql_rollback d4)
        | (Inr r, d4) \<Rightarrow> (Inr r, d4)))"

subsection \<open>Codebases\<close>

record Codebase =
  co_id :: nat
  co_rootPath :: string
  co_name :: string
  co_indexedAt :: int
  co_fileCount :: nat
  co_chunkCount :: nat

text \<open>\<open>rootPath.split('/').pop() ?? ''\<close>\<close>

definition last_segment :: "string \<Rightarrow> string" where
  "last_segment rootPath = last (split_on (CHR ''/'') rootPath)"

definition sql_insert_codebase :: "string \<Rightarrow> string \<Rightarrow> int \<Rightarrow> tables \<Rightarrow> tables" where
  "sql_insert_codebase rootPath nm now t =
     t\<lparr>t_codebases := t_codebases t @
          [\<lparr>cb_id = t_seq_codebases t + 1, cb_root_path = rootPath, cb_name = nm,
            cb_indexed_at = now\<rparr>],
       t_seq_codebases := t_seq_codebases t + 1\<rparr>"

definition select_codebase_id :: "string \<Rightarrow> tables \<Rightarrow> nat option" where
  "select_codebase_id rootPath t =
     map_option cb_id (find (\<lambda>c. cb_root_path c = rootPath) (t_codebases t))"

text \<open>
  \<open>getOrCreateCodebase\<close>. The row read back after the insert is there; were it not, the
  read of \<open>inserted.id\<close> would throw a type error.
\<close>

definition getOrCreateCodebase :: "faults \<Rightarrow> int \<Rightarrow> string \<Rightarrow> db \<Rightarrow> (error + nat) \<times> db" where
  "getOrCreateCodebase F now rootPath d =
     bind_db (db_query F (select_codebase_id rootPath) d) (\<lambda>row d1.
       (case row of
          Some i \<Rightarrow> (Inr i, d1)
        | None \<Rightarrow>
            bind_db (db_exec F (sql_insert_codebase rootPath (last_segment rootPath) now) d1) (\<lambda>_ d2.
              bind_db (db_query F (select_codebase_id rootPath) d2) (\<lambda>inserted d3.
                (case inserted of
                   Some i \<Rightarrow> (Inr i, d3)
                 | None \<Rightarrow> (Inl (StorageError ''TypeError: inserted is undefined''), d3))))))"

text \<open>
  The query of \<open>listCodebases\<close>: per codebase the number of distinct file paths and the
  sum of the chunk counts of its file rows, in the order of the root paths.
\<close>

definition select_codebases :: "tables \<Rightarrow> Codebase list" where
  "select_codebases t =
     map (\<lambda>c.
            \<lparr>co_id = cb_id c, co_rootPath = cb_root_path c, co_name = cb_name c,
             co_indexedAt = cb_indexed_at c,
             co_fileCount =
               length (remdups (map if_file_path
                 (filter (\<lambda>f. if_codebase_id f = cb_id c) (t_indexed_files t)))),
             co_chunkCount =
               sum_list (map if_chunk_count
                 (filter (\<lambda>f. if_codebase_id f = cb_id c) (t_indexed_files t)))\<rparr>)
       (sort_key cb_root_path (t_codebases t))"

definition listCodebases :: "faults \<Rightarrow> db \<Rightarrow> (error + Codebase list) \<times> db" where
  "listCodebases F d = db_query F select_codebases d"

definition touchCodebase :: "faults \<Rightarrow> int \<Rightarrow> nat \<Rightarrow> db \<Rightarrow> (error + unit) \<times> db" where
  "touchCodebase F now codebaseId d =
     db_exec F (\<lambda>t. t\<lparr>t_codebases :=
        map (\<lambda>c. if cb_id c = codebaseId then c\<lparr>cb_indexed_at := now\<rparr> else c) (t_codebases t)\<rparr>) d"

subsection \<open>File hashes\<close>

definition select_file_hash :: "nat \<Rightarrow> string \<Rightarrow> tables \<Rightarrow> string option" where
  "select_file_hash codebaseId filePath t =
     map_option if_file_hash
       (find (\<lambda>f. if_codebase_id f = codebaseId \<and> if_file_path f = filePath) (t_indexed_files t))"

definition getFileHash :: "faults \<Rightarrow> nat \<Rightarrow> string \<Rightarrow> db \<Rightarrow> (error + string option) \<times> db" where
  "getFileHash F codebaseId filePath d = db_query F (select_file_hash codebaseId filePath) d"

subsection \<open>Chunk writes\<close>

text \<open>\<open>DELETE FROM chunks WHERE codebase_id = ? AND file_path = ?\<close>\<close>

definition sql_delete_chunks :: "nat \<Rightarrow> string \<Rightarrow> tables \<Rightarrow> tables" where
  "sql_delete_chunks codebaseId filePath t =
     t\<lparr>t_chunks :=
        filter (\<lambda>r. \<not> (ch_codebase_id r = codebaseId \<and> ch_file_path r = filePath)) (t_chunks t)\<rparr>"

text \<open>
  The insert of a chunk. A row with the chunk key is updated in place: it keeps its id
  and its file path, takes the other columns of the new chunk and loses its embedding and
  its model name. Otherwise a new row is appended, whose embedding and model name have
  the defaults of the schema, \<open>NULL\<close> and the empty string.
\<close>

definition conflict_update :: "nat \<Rightarrow> CodeChunk \<Rightarrow> int \<Rightarrow> chunk_row \<Rightarrow> chunk_row" where
  "conflict_update codebaseId chunk now r =
     r\<lparr>ch_codebase_id := codebaseId, ch_language := cc_language chunk, ch_kind := cc_kind chunk,
       ch_name := cc_name chunk, ch_signature := cc_signature chunk,
       ch_snippet := cc_snippet chunk, ch_start_line := cc_startLine chunk,
       ch_end_line := cc_endLine chunk, ch_file_hash := cc_fileHash chunk,
       ch_indexed_at := now, ch_embedding := None, ch_embedding_model := []\<rparr>"

definition inserted_row :: "nat \<Rightarrow> nat \<Rightarrow> CodeChunk \<Rightarrow> int \<Rightarrow> chunk_row" where
  "inserted_row i codebaseId chunk now =
     \<lparr>ch_id = i, ch_codebase_id = codebaseId, ch_file_path = cc_filePath chunk,
      ch_chunk_key = cc_chunkKey chunk, ch_language = cc_language chunk, ch_kind = cc_kind chunk,
      ch_name = cc_name chunk, ch_signature = cc_signature chunk, ch_snippet = cc_snippet chunk,
      ch_start_line = cc_startLine chunk, ch_end_line = cc_endLine chunk,
      ch_file_hash = cc_fileHash chunk, ch_indexed_at = now, ch_embedding = None,
      ch_embedding_model = []\<rparr>"

definition sql_insert_chunk :: "nat \<Rightarrow> CodeChunk \<Rightarrow> int \<Rightarrow> tables \<Rightarrow> tables" where
  "sql_insert_chunk codebaseId chunk now t =
     (if list_ex (\<lambda>r. ch_chunk_key r = cc_chunkKey chunk) (t_chunks t)
      then t\<lparr>t_chunks :=
             map (\<lambda>r. if ch_chunk_key r = cc_chunkKey chunk
                      then conflict_update codebaseId chunk now r else r) (t_chunks t)\<rparr>
      else t\<lparr>t_chunks := t_chunks t @ [inserted_row (t_seq_chunks t + 1) codebaseId chunk now],
             t_seq_chunks := t_seq_chunks t + 1\<rparr>)"

text \<open>The upsert of the row of a file in \<open>indexed_files\<close>.\<close>

definition sql_upsert_file :: "nat \<Rightarrow> string \<Rightarrow> string \<Rightarrow> nat \<Rightarrow> int \<Rightarrow> tables \<Rightarrow> tables" where
  "sql_upsert_file codebaseId filePath fileHash chunkCount now t =
     (if list_ex (\<lambda>f. if_codebase_id f = codebaseId \<and> if_file_path f = filePath) (t_indexed_files t)
      then t\<lparr>t_indexed_files :=
             map (\<lambda>f. if if_codebase_id f = codebaseId \<and> if_file_path f = filePath
                      then f\<lparr>if_file_hash := fileHash, if_chunk_count := chunkCount,
                             if_indexed_at := now\<rparr>
                      else f) (t_indexed_files t)\<rparr>
      else t\<lparr>t_indexed_files := t_indexed_files t @
               [\<lparr>if_id = t_seq_files t + 1, if_codebase_id = codebaseId, if_file_path = filePath,
                 if_file_hash = fileHash, if_chunk_count = chunkCount, if_indexed_at = now\<rparr>],
             t_seq_files := t_seq_files t + 1\<rparr>)"

record file_chunks =
  fc_filePath :: string
  fc_fileHash :: string
  fc_chunks :: "CodeChunk list"

text \<open>The inner loop of \<open>batchUpsertAllFileChunks\<close>, over the chunks of one file.\<close>

fun insert_chunks :: "faults \<Rightarrow> nat \<Rightarrow> int \<Rightarrow> CodeChunk list \<Rightarrow> db \<Rightarrow> (error + unit) \<times> db" where
  "insert_chunks F codebaseId now [] d = (Inr (), d)"
| "insert_chunks F codebaseId now (chunk # chunks) d =
     bind_db (db_exec F (sql_insert_chunk codebaseId chunk now) d)
       (\<lambda>_ d1. insert_chunks F codebaseId now chunks d1)"

text \<open>The outer loop, over the files: delete, insert, upsert the file row.\<close>

fun upsert_files :: "faults \<Rightarrow> nat \<Rightarrow> int \<Rightarrow> file_chunks list \<Rightarrow> db \<Rightarrow> (error + unit) \<times> db" where
  "upsert_files F codebaseId now [] d = (Inr (), d)"
| "upsert_files F codebaseId now (fc # fcs) d =
     bind_db (db_exec F (sql_delete_chunks codebaseId (fc_filePath fc)) d) (\<lambda>_ d1.
       bind_db (insert_chunks F codebaseId now (fc_chunks fc) d1) (\<lambda>_ d2.
         bind_db (db_exec F (sql_upsert_file codebaseId (fc_filePath fc) (fc_fileHash fc)
                    (length (fc_chunks fc)) now) d2) (\<lambda>_ d3.
           upsert_files F codebaseId now fcs d3)))"

text \<open>
  \<open>batchUpsertAllFileChunks\<close>: \<open>BEGIN\<close>, then inside the \<open>try\<close> the three \<open>prepare\<close> calls,
  the loop and \<open>COMMIT\<close>.
\<close>

definition batchUpsertAllFileChunks ::
  "faults \<Rightarrow> int \<Rightarrow> nat \<Rightarrow> file_chunks list \<Rightarrow> db \<Rightarrow> (error + unit) \<times> db" where
  "batchUpsertAllFileChunks F now codebaseId fileChunks d =
     in_transaction F (\<lambda>d0.
       bind_db (db_exec F (\<lambda>t. t) d0) (\<lambda>_ d1.
         bind_db (db_exec F (\<lambda>t. t) d1) (\<lambda>_ d2.
           bind_db (db_exec F (\<lambda>t. t) d2) (\<lambda>_ d3.
             upsert_files F codebaseId now fileChunks d3)))) d"

text \<open>
  The statements that the transaction executes for one file and for the list of files, as
  functions of the tables: the delete, the inserts in order, the upsert of the file row.
\<close>

definition apply_file :: "nat \<Rightarrow> int \<Rightarrow> file_chunks \<Rightarrow> tables \<Rightarrow> tables" where
  "apply_file codebaseId now fc t =
     sql_upsert_file codebaseId (fc_filePath fc) (fc_fileHash fc) (length (fc_chunks fc)) now
       (fold (\<lambda>chunk. sql_insert_chunk codebaseId chunk now) (fc_chunks fc)
          (sql_delete_chunks codebaseId (fc_filePath fc) t))"

definition apply_files :: "nat \<Rightarrow> int \<Rightarrow> file_chunks list \<Rightarrow> tables \<Rightarrow> tables" where
  "apply_files codebaseId now fileChunks t = fold (apply_file codebaseId now) fileChunks t"

text \<open>
  The chunk keys of a batch; the rows with a key in a set have no embedding and an empty
  model name; the rows of a codebase for the paths of a set have their keys in a set; the
  file row of a file of the batch is there and holds its hash, its chunk count and the
  time stamp.
\<close>

definition batch_keys :: "file_chunks list \<Rightarrow> string set" where
  "batch_keys fileChunks = (\<Union>fc \<in> set fileChunks. cc_chunkKey ` set (fc_chunks fc))"

definition cleared :: "string set \<Rightarrow> tables \<Rightarrow> bool" where
  "cleared K t =
     (\<forall>r \<in> set (t_chunks t). ch_chunk_key r \<in> K \<longrightarrow>
        ch_embedding r = None \<and> ch_embedding_model r = [])"

definition rows_from :: "string set \<Rightarrow> nat \<Rightarrow> string set \<Rightarrow> tables \<Rightarrow> bool" where
  "rows_from K codebaseId P t =
     (\<forall>r \<in> set (t_chunks t). ch_codebase_id r = codebaseId \<and> ch_file_path r \<in> P \<longrightarrow>
        ch_chunk_key r \<in> K)"

definition file_recorded :: "nat \<Rightarrow> int \<Rightarrow> file_chunks \<Rightarrow> tables \<Rightarrow> bool" where
  "file_recorded codebaseId now fc t =
     ((\<exists>f \<in> set (t_indexed_files t).
         if_codebase_id f = codebaseId \<and> if_file_path f = fc_filePath fc) \<and>
      (\<forall>f \<in> set (t_indexed_files t).
         if_codebase_id f = codebaseId \<and> if_file_path f = fc_filePath fc \<longrightarrow>
           if_file_hash f = fc_fileHash fc \<and> if_chunk_count f = length (fc_chunks fc) \<and>
           if_indexed_at f = now))"

text \<open>\<open>removeStaleFiles\<close>: the loop over the stored paths, with its counter.\<close>

definition sql_delete_file :: "nat \<Rightarrow> string \<Rightarrow> tables \<Rightarrow> tables" where
  "sql_delete_file codebaseId filePath t =
     t\<lparr>t_indexed_files :=
        filter (\<lambda>f. \<not> (if_codebase_id f = codebaseId \<and> if_file_path f = filePath))
          (t_indexed_files t)\<rparr>"

fun remove_loop :: "faults \<Rightarrow> nat \<Rightarrow> string list \<Rightarrow> string list \<Rightarrow> nat \<Rightarrow> db \<Rightarrow> (error + nat) \<times> db" where
  "remove_loop F codebaseId activeFiles [] removed d = (Inr removed, d)"
| "remove_loop F codebaseId activeFiles (p # ps) removed d =
     (if p \<notin> set activeFiles then
        bind_db (db_exec F (sql_delete_chunks codebaseId p) d) (\<lambda>_ d1.
          bind_db (db_exec F (sql_delete_file codebaseId p) d1) (\<lambda>_ d2.
            remove_loop F codebaseId activeFiles ps (removed + 1) d2))
      else remove_loop F codebaseId activeFiles ps removed d)"

definition removeStaleFiles :: "faults \<Rightarrow> nat \<Rightarrow> string list \<Rightarrow> db \<Rightarrow> (error + nat) \<times> db" where
  "removeStaleFiles F codebaseId activeFiles d =
     bind_db (db_query F (\<lambda>t. map if_file_path
                (filter (\<lambda>f. if_codebase_id f = codebaseId) (t_indexed_files t))) d) (\<lambda>paths d1.
       in_transaction F (remove_loop F codebaseId activeFiles paths 0) d1)"

subsection \<open>Embeddings\<close>

text \<open>
  The operators of the engine on vectors and on text, parameters of the model:
  \<open>vector8\<close> applied to the bound JSON text of a vector (\<open>None\<close> when the bound value is
  \<open>undefined\<close>), \<open>vector_distance_cos\<close> of a stored embedding and such a value (\<open>None\<close> is
  \<open>NULL\<close>), \<open>fts_match\<close> and \<open>fts_score\<close> of the columns \<open>name\<close> and \<open>signature\<close> of a row of a
  text table against a query.
\<close>

record engine =
  eng_vector8 :: "real list option \<Rightarrow> real list option"
  eng_vector_distance_cos :: "real list \<Rightarrow> real list option \<Rightarrow> real option"
  eng_fts_match :: "string \<Rightarrow> string \<Rightarrow> string \<Rightarrow> bool"
  eng_fts_score :: "fts_row list \<Rightarrow> string \<Rightarrow> string \<Rightarrow> string \<Rightarrow> real"

record embedding_item =
  ei_chunkKey :: string
  ei_embedding :: "real list option"
  ei_modelName :: string

definition sql_update_embedding :: "engine \<Rightarrow> embedding_item \<Rightarrow> tables \<Rightarrow> tables" where
  "sql_update_embedding eng item t =
     t\<lparr>t_chunks :=
        map (\<lambda>r. if ch_chunk_key r = ei_chunkKey item
                 then r\<lparr>ch_embedding := eng_vector8 eng (ei_embedding item),
                        ch_embedding_model := ei_modelName item\<rparr>
                 else r) (t_chunks t)\<rparr>"

fun update_embeddings :: "faults \<Rightarrow> engine \<Rightarrow> embedding_item list \<Rightarrow> db \<Rightarrow> (error + unit) \<times> db" where
  "update_embeddings F eng [] d = (Inr (), d)"
| "update_embeddings F eng (item # items) d =
     bind_db (db_exec F (sql_update_embedding eng item) d)
       (\<lambda>_ d1. update_embeddings F eng items d1)"

definition batchUpsertEmbeddings ::
  "faults \<Rightarrow> engine \<Rightarrow> embedding_item list \<Rightarrow> db \<Rightarrow> (error + unit) \<times> db" where
  "batchUpsertEmbeddings F eng items d =
     (if items = [] then (Inr (), d) else in_transaction F (update_embeddings F eng items) d)"

record stale_chunk =
  st_chunkKey :: string
  st_name :: string
  st_signature :: string
  st_filePath :: string
  st_kind :: string
  st_snippet :: string

text \<open>
  The query of \<open>getStaleEmbeddings\<close>; the optional limit applies when it is given and
  is not 0.
\<close>

definition select_stale :: "nat \<Rightarrow> string \<Rightarrow> nat option \<Rightarrow> tables \<Rightarrow> stale_chunk list" where
  "select_stale codebaseId modelName limit t =
     (let rows = filter (\<lambda>r. ch_codebase_id r = codebaseId \<and>
                   (ch_embedding r = None \<or> ch_embedding_model r \<noteq> modelName)) (t_chunks t);
          rows' = (case limit of None \<Rightarrow> rows | Some n \<Rightarrow> if n = 0 then rows else take n rows)
      in map (\<lambda>r. \<lparr>st_chunkKey = ch_chunk_key r, st_name = ch_name r,
                    st_signature = ch_signature r, st_filePath = ch_file_path r,
                    st_kind = ch_kind r, st_snippet = ch_snippet r\<rparr>) rows')"

definition getStaleEmbeddings ::
  "faults \<Rightarrow> nat \<Rightarrow> string \<Rightarrow> nat option \<Rightarrow> db \<Rightarrow> (error + stale_chunk list) \<times> db" where
  "getStaleEmbeddings F codebaseId modelName limit d =
     db_query F (select_stale codebaseId modelName limit) d"

subsection \<open>The text table of a codebase\<close>

text \<open>
  \<open>rebuildFtsTable\<close>: drop, create, populate, then the creation and the optimisation of
  the index, which leave the rows as they are.
\<close>

definition rebuildFtsTable :: "faults \<Rightarrow> nat \<Rightarrow> db \<Rightarrow> (error + unit) \<times> db" where
  "rebuildFtsTable F codebaseId d =
     bind_db (db_exec F (\<lambda>t. t\<lparr>t_fts := AList.delete codebaseId (t_fts t)\<rparr>) d) (\<lambda>_ d1.
       bind_db (db_exec F (\<lambda>t. if map_of (t_fts t) codebaseId = None
                              then t\<lparr>t_fts := t_fts t @ [(codebaseId, [])]\<rparr> else t) d1) (\<lambda>_ d2.
         bind_db (db_exec F (\<lambda>t. t\<lparr>t_fts := AList.map_entry codebaseId
                     (\<lambda>rows. rows @ map (\<lambda>r. \<lparr>ft_chunk_id = ch_id r, ft_name = ch_name r,
                                                ft_signature = ch_signature r\<rparr>)
                                  (filter (\<lambda>r. ch_codebase_id r = codebaseId) (t_chunks t)))
                     (t_fts t)\<rparr>) d2) (\<lambda>_ d3.
           bind_db (db_exec F (\<lambda>t. t) d3) (\<lambda>_ d4.
             db_exec F (\<lambda>t. t) d4))))"

subsection \<open>Search\<close>

record SearchResult =
  sr_chunkKey :: string
  sr_filePath :: string
  sr_name :: string
  sr_kind :: string
  sr_signature :: string
  sr_snippet :: string
  sr_startLine :: int
  sr_endLine :: int
  sr_score :: real

definition result_of_row :: "bool \<Rightarrow> chunk_row \<Rightarrow> real \<Rightarrow> SearchResult" where
  "result_of_row includeSnippet r sc =
     \<lparr>sr_chunkKey = ch_chunk_key r, sr_filePath = ch_file_path r, sr_name = ch_name r,
      sr_kind = ch_kind r, sr_signature = ch_signature r,
      sr_snippet = (if includeSnippet then ch_snippet r else []),
      sr_startLine = ch_start_line r, sr_endLine = ch_end_line r, sr_score = sc\<rparr>"

text \<open>
  The query of \<open>vectorSearch\<close>: the rows with an embedding, each with its distance to
  the query vector, by ascending distance (a \<open>NULL\<close> distance sorts first), cut at the
  limit. Among equal distances the order of the table is kept.
\<close>

definition select_nearest ::
  "engine \<Rightarrow> real list option \<Rightarrow> nat \<Rightarrow> tables \<Rightarrow> (chunk_row \<times> real option) list" where
  "select_nearest eng queryEmbedding limit t =
     take limit (sort_key snd
       (List.map_filter (\<lambda>r. case ch_embedding r of
            None \<Rightarrow> None
          | Some emb \<Rightarrow>
              Some (r, eng_vector_distance_cos eng emb (eng_vector8 eng queryEmbedding)))
        (t_chunks t)))"

text \<open>\<open>score: 1 - (row.distance ?? 1)\<close>\<close>

definition vectorSearch ::
  "faults \<Rightarrow> engine \<Rightarrow> real list option \<Rightarrow> nat \<Rightarrow> bool \<Rightarrow> db \<Rightarrow>
   (error + SearchResult list) \<times> db" where
  "vectorSearch F eng queryEmbedding limit includeSnippet d =
     bind_db (db_query F (select_nearest eng queryEmbedding limit) d) (\<lambda>rows d1.
       (Inr (map (\<lambda>(r, distance).
               result_of_row includeSnippet r
                 (1 - (case distance of None \<Rightarrow> 1 | Some x \<Rightarrow> x))) rows), d1))"

text \<open>
  The query of \<open>ftsSearch\<close> on one text table: the ids of the matching rows with their
  scores, by descending score, cut at the limit.
\<close>

definition select_matches ::
  "engine \<Rightarrow> string \<Rightarrow> nat \<Rightarrow> fts_row list \<Rightarrow> (nat \<times> real) list" where
  "select_matches eng query limit rows =
     take limit (sort_key (\<lambda>p. - snd p)
       (map (\<lambda>r. (ft_chunk_id r, eng_fts_score eng rows (ft_name r) (ft_signature r) query))
          (filter (\<lambda>r. eng_fts_match eng (ft_name r) (ft_signature r) query) rows)))"

text \<open>
  The inner loop of \<open>ftsSearch\<close>: each match is looked up in the chunk table and pushed
  to \<open>allResults\<close>. When a lookup throws, what was pushed before stays in the array.
\<close>

fun collect_matches ::
  "faults \<Rightarrow> bool \<Rightarrow> (nat \<times> real) list \<Rightarrow> SearchResult list \<Rightarrow> db \<Rightarrow>
   (error option \<times> SearchResult list) \<times> db" where
  "collect_matches F includeSnippet [] allResults d = ((None, allResults), d)"
| "collect_matches F includeSnippet (m # scores) allResults d =
     (case db_query F (\<lambda>t. find (\<lambda>r. ch_id r = fst m) (t_chunks t)) d of
        (Inl e, d1) \<Rightarrow> ((Some e, allResults), d1)
      | (Inr row, d1) \<Rightarrow>
          collect_matches F includeSnippet scores
            (case row of None \<Rightarrow> allResults
             | Some r \<Rightarrow> allResults @ [result_of_row includeSnippet r (snd m)]) d1)"

text \<open>The \<open>try\<close> block of the outer loop, for a codebase whose text table exists.\<close>

definition search_table ::
  "faults \<Rightarrow> engine \<Rightarrow> string \<Rightarrow> nat \<Rightarrow> bool \<Rightarrow> fts_row list \<Rightarrow> SearchResult list \<Rightarrow> db \<Rightarrow>
   (error option \<times> SearchResult list) \<times> db" where
  "search_table F eng query limit includeSnippet rows allResults d =
     (case db_query F (\<lambda>t. select_matches eng query limit rows) d of
        (Inl e, d1) \<Rightarrow> ((Some e, allResults), d1)
      | (Inr scores, d1) \<Rightarrow> collect_matches F includeSnippet scores allResults d1)"

text \<open>The errors that the \<open>catch\<close> block drops: a missing table or a missing index.\<close>

definition fts_not_built :: "error \<Rightarrow> bool" where
  "fts_not_built e =
     (case e of
        StorageError msg \<Rightarrow> str_includes msg ''no such table'' \<or> str_includes msg ''no such index''
      | _ \<Rightarrow> False)"

text \<open>The outer loop, over the codebase ids.\<close>

fun search_codebases ::
  "faults \<Rightarrow> engine \<Rightarrow> string \<Rightarrow> nat \<Rightarrow> bool \<Rightarrow> nat list \<Rightarrow> SearchResult list \<Rightarrow> db \<Rightarrow>
   (error + SearchResult list) \<times> db" where
  "search_codebases F eng query limit includeSnippet [] allResults d = (Inr allResults, d)"
| "search_codebases F eng query limit includeSnippet (i # ids) allResults d =
     bind_db (db_query F (\<lambda>t. map_of (t_fts t) i) d) (\<lambda>tbl d1.
       (case tbl of
          None \<Rightarrow> search_codebases F eng query limit includeSnippet ids allResults d1
        | Some rows \<Rightarrow>
            (case search_table F eng query limit includeSnippet rows allResults d1 of
               ((None, results), d2) \<Rightarrow>
                 search_codebases F eng query limit includeSnippet ids results d2
             | ((Some e, results), d2) \<Rightarrow>
                 (if fts_not_built e
                  then search_codebases F eng query limit includeSnippet ids results d2
                  else (Inl e, d2)))))"

definition ftsSearch ::
  "faults \<Rightarrow> engine \<Rightarrow> string \<Rightarrow> nat \<Rightarrow> bool \<Rightarrow> db \<Rightarrow> (error + SearchResult list) \<times> db" where
  "ftsSearch F eng query limit includeSnippet d =
     bind_db (db_query F (\<lambda>t. map cb_id (t_codebases t)) d) (\<lambda>ids d1.
       bind_db (search_codebases F eng query limit includeSnippet ids [] d1) (\<lambda>allResults d2.
         (Inr (take limit (sort_key (\<lambda>r. - sr_score r) allResults)), d2)))"

section \<open>Rank fusion (src/search/rank.ts)\<close>

text \<open>\<open>scores.get(key) ?? 0\<close>\<close>

definition get_or_zero :: "(string \<times> real) list \<Rightarrow> string \<Rightarrow> real" where
  "get_or_zero scores key = (case map_of scores key of None \<Rightarrow> 0 | Some s \<Rightarrow> s)"

text \<open>
  The first loop of \<open>rrfMerge\<close>: \<open>i\<close> is the loop index of the head of the remaining
  list, the state is the pair of maps \<open>scores\<close> and \<open>data\<close>.
\<close>

fun fts_loop ::
  "real \<Rightarrow> real \<Rightarrow> SearchResult list \<Rightarrow> nat \<Rightarrow>
   (string \<times> real) list \<times> (string \<times> SearchResult) list \<Rightarrow>
   (string \<times> real) list \<times> (string \<times> SearchResult) list" where
  "fts_loop k ftsWeight [] i st = st"
| "fts_loop k ftsWeight (r # rs) i (scores, data) =
     fts_loop k ftsWeight rs (i + 1)
       (AList.update (sr_chunkKey r)
          (get_or_zero scores (sr_chunkKey r) + ftsWeight / (k + real i + 1)) scores,
        AList.update (sr_chunkKey r) r data)"

text \<open>The second loop: a vector row becomes the payload only when the key has none yet.\<close>

fun vec_loop ::
  "real \<Rightarrow> real \<Rightarrow> SearchResult list \<Rightarrow> nat \<Rightarrow>
   (string \<times> real) list \<times> (string \<times> SearchResult) list \<Rightarrow>
   (string \<times> real) list \<times> (string \<times> SearchResult) list" where
  "vec_loop k vecWeight [] i st = st"
| "vec_loop k vecWeight (r # rs) i (scores, data) =
     vec_loop k vecWeight rs (i + 1)
       (AList.update (sr_chunkKey r)
          (get_or_zero scores (sr_chunkKey r) + vecWeight / (k + real i + 1)) scores,
        (if map_of data (sr_chunkKey r) = None then AList.update (sr_chunkKey r) r data
         else data))"

text \<open>
  \<open>{ ...row, score }\<close> where \<open>row = data.get(key)!\<close>. Should the key have no payload the
  spread of \<open>undefined\<close> leaves an object that holds the score only; \<open>no_row\<close> stands for
  it (the lemma \<open>fused_entry\<close> shows that the case never arises).
\<close>

definition no_row :: SearchResult where
  "no_row = \<lparr>sr_chunkKey = [], sr_filePath = [], sr_name = [], sr_kind = [],
     sr_signature = [], sr_snippet = [], sr_startLine = 0, sr_endLine = 0, sr_score = 0\<rparr>"

definition with_score :: "(string \<times> SearchResult) list \<Rightarrow> string \<times> real \<Rightarrow> SearchResult" where
  "with_score data e =
     (case map_of data (fst e) of
        None \<Rightarrow> no_row\<lparr>sr_score := snd e\<rparr>
      | Some row \<Rightarrow> row\<lparr>sr_score := snd e\<rparr>)"

text \<open>
  \<open>Array.from(scores.entries()).sort((a, b) => b[1] - a[1])\<close>: the entries in insertion
  order, sorted by descending score; the sort of the language is stable, as
  \<^const>\<open>sort_key\<close> is.
\<close>

definition sort_desc :: "(string \<times> real) list \<Rightarrow> (string \<times> real) list" where
  "sort_desc entries = sort_key (\<lambda>e. - snd e) entries"

definition rrfMerge_with ::
  "SearchResult list \<Rightarrow> SearchResult list \<Rightarrow> nat \<Rightarrow> real \<Rightarrow> real \<Rightarrow> real \<Rightarrow> SearchResult list" where
  "rrfMerge_with ftsResults vecResults limit k ftsWeight vecWeight =
     (let st1 = fts_loop k ftsWeight ftsResults 0 ([], []);
          st2 = vec_loop k vecWeight vecResults 0 st1
      in map (with_score (snd st2)) (take limit (sort_desc (fst st2))))"

text \<open>The call with the default parameters \<open>k = 60, ftsWeight = 0.4, vecWeight = 0.6\<close>.\<close>

definition rrfMerge :: "SearchResult list \<Rightarrow> SearchResult list \<Rightarrow> nat \<Rightarrow> SearchResult list" where
  "rrfMerge ftsResults vecResults limit = rrfMerge_with ftsResults vecResults limit 60 0.4 0.6"

text \<open>
  The helper \<open>result\<close> of the repository's test of \<open>rrfMerge\<close>: a row for a name.
\<close>

definition result :: "string \<Rightarrow> real \<Rightarrow> SearchResult" where
  "result nm sc = \<lparr>sr_chunkKey = nm, sr_filePath = ''/src/'' @ nm @ ''.ts'', sr_name = nm,
     sr_kind = ''function'', sr_signature = ''function '' @ nm @ ''()'',
     sr_snippet = ''function '' @ nm @ ''() { /* ... */ }'', sr_startLine = 1, sr_endLine = 5,
     sr_score = sc\<rparr>"

subsection \<open>What the specification says of the fusion\<close>

text \<open>
  The quantity the specification assigns to one list: the weighted reciprocal ranks
  \<open>w / (k + rank)\<close> of the positions at which the key stands in the list, ranks counted
  from 1. \<open>rrf_from\<close> is the same sum for a list whose head has index \<open>n\<close>.
\<close>

definition rrf_from :: "real \<Rightarrow> real \<Rightarrow> nat \<Rightarrow> SearchResult list \<Rightarrow> string \<Rightarrow> real" where
  "rrf_from k w n xs key =
     (\<Sum>(i, r)\<leftarrow>enumerate n xs. if sr_chunkKey r = key then w / (k + real (i + 1)) else 0)"

definition rrf_term :: "real \<Rightarrow> real \<Rightarrow> SearchResult list \<Rightarrow> string \<Rightarrow> real" where
  "rrf_term k w xs key = rrf_from k w 0 xs key"

text \<open>
  The payload of a key: the text-side row when the text list holds the key (the last
  such row, since \<open>data.set\<close> overwrites), else the first vector-side row.
\<close>

definition rrf_payload :: "SearchResult list \<Rightarrow> SearchResult list \<Rightarrow> string \<Rightarrow> SearchResult option" where
  "rrf_payload fts vec key =
     (case find (\<lambda>r. sr_chunkKey r = key) (rev fts) of
        Some r \<Rightarrow> Some r
      | None \<Rightarrow> find (\<lambda>r. sr_chunkKey r = key) vec)"

text \<open>The fusion with a limit that cuts nothing off, and the entries of its score map.\<close>

definition rrfMerge_all :: "SearchResult list \<Rightarrow> SearchResult list \<Rightarrow> SearchResult list" where
  "rrfMerge_all fts vec = rrfMerge fts vec (length fts + length vec)"

definition fused_entries :: "SearchResult list \<Rightarrow> SearchResult list \<Rightarrow> (string \<times> real) list" where
  "fused_entries fts vec = fst (vec_loop 60 0.6 vec 0 (fts_loop 60 0.4 fts 0 ([], [])))"

section \<open>Orchestrator (src/index.ts)\<close>

datatype SearchMode = Semantic | Keyword | Hybrid

record SearchOptions =
  so_limit :: "nat option"
  so_threshold :: "real option"
  so_includeSnippet :: "bool option"
  so_mode :: "SearchMode option"

record IndexOptions =
  io_languages :: "string list option"
  io_verbose :: "bool option"

text \<open>
  A value in the array \<open>errors\<close> of an index run: a string, or an object with the two
  properties \<open>path\<close> and \<open>error\<close>.
\<close>

datatype error_entry = ErrorString string | ErrorObject string string

record IndexResult =
  ir_files :: nat
  ir_chunks :: nat
  ir_embedded :: nat
  ir_skipped :: nat
  ir_removed :: nat
  ir_errors :: "error_entry list"
  ir_duration :: int

text \<open>
  The instance: the path of the database file, the embedder (it returns the vectors or
  throws), the model name and the flag of the health check. The store that an instance
  opens on first use is the database that the operations below take and return.
\<close>

record CodeIndex =
  ci_dbPath :: string
  ci_embedder :: "string list \<Rightarrow> string + real list list"
  ci_embeddingModel :: string
  ci_searchVerified :: bool

text \<open>
  What a call takes from outside the repository: the faults of the storage engine and
  its operators, the clock (\<open>Date.now()\<close> and the elapsed time that is reported), SHA-256,
  the parser, and the size of the database file when the file exists. The module
  \<open>search/query.ts\<close> is not among the sources: \<open>env_preprocessKeywords\<close> stands for
  \<open>preprocessQuery(query, "keywords")\<close>.
\<close>

record env =
  env_faults :: faults
  env_engine :: engine
  env_now :: int
  env_elapsed :: int
  env_sha256 :: "string \<Rightarrow> string"
  env_parse :: "LanguageConfig \<Rightarrow> string \<Rightarrow> string + SyntaxNode option"
  env_preprocessKeywords :: "string \<Rightarrow> string"
  env_dbFileSize :: "nat option"

subsection \<open>Indexing\<close>

text \<open>The loop of the hash check: the active paths, the skip counter, the files to process.\<close>

fun check_hashes ::
  "faults \<Rightarrow> nat \<Rightarrow> ScannedFile list \<Rightarrow> string list \<times> nat \<times> ScannedFile list \<Rightarrow> db \<Rightarrow>
   (error + string list \<times> nat \<times> ScannedFile list) \<times> db" where
  "check_hashes F codebaseId [] st d = (Inr st, d)"
| "check_hashes F codebaseId (file # files) st d =
     bind_db (getFileHash F codebaseId (sf_absPath file) d) (\<lambda>storedHash d1.
       check_hashes F codebaseId files
         (List.insert (sf_absPath file) (fst st),
          (if storedHash = Some (sf_hash file) then fst (snd st) + 1 else fst (snd st)),
          (if storedHash = Some (sf_hash file) then snd (snd st) else snd (snd st) @ [file])) d1)"

definition buildEmbedText :: "stale_chunk \<Rightarrow> string" where
  "buildEmbedText s =
     (let text0 = st_filePath s;
          text1 = (if st_kind s \<noteq> [] \<and> st_name s \<noteq> []
                   then text0 @ '': '' @ st_kind s @ '' '' @ st_name s
                   else if st_name s \<noteq> [] then text0 @ '': '' @ st_name s else text0);
          text2 = (if st_signature s \<noteq> [] then text1 @ [CHR 0x0A] @ st_signature s else text1)
      in if st_snippet s \<noteq> [] then text2 @ [CHR 0x0A] @ take 500 (st_snippet s) else text2)"

definition FILE_BATCH :: nat where
  "FILE_BATCH = 200"

definition EMBED_BATCH :: nat where
  "EMBED_BATCH = 64"

text \<open>
  The loop that chunks the files of a batch. Its state: \<open>batchChunks\<close>, \<open>filesProcessed\<close>,
  \<open>chunksCreated\<close> and the array \<open>errors\<close>, to which the \<open>catch\<close> block pushes an object.
\<close>

definition chunk_one ::
  "env \<Rightarrow> ScannedFile \<Rightarrow> file_chunks list \<times> nat \<times> nat \<times> error_entry list \<Rightarrow>
   file_chunks list \<times> nat \<times> nat \<times> error_entry list" where
  "chunk_one E file st =
     (case detectLanguage (sf_absPath file) of
        None \<Rightarrow> st
      | Some langConfig \<Rightarrow>
          (case chunkFile (env_parse E) (sf_absPath file) (sf_content file) (sf_hash file) langConfig of
             Inr chunks \<Rightarrow>
               (fst st @ [\<lparr>fc_filePath = sf_absPath file, fc_fileHash = sf_hash file,
                           fc_chunks = chunks\<rparr>],
                fst (snd st) + 1, fst (snd (snd st)) + length chunks, snd (snd (snd st)))
           | Inl message \<Rightarrow>
               (fst st, fst (snd st), fst (snd (snd st)),
                snd (snd (snd st)) @ [ErrorObject (sf_absPath file) message])))"

definition chunk_files ::
  "env \<Rightarrow> ScannedFile list \<Rightarrow> file_chunks list \<times> nat \<times> nat \<times> error_entry list \<Rightarrow>
   file_chunks list \<times> nat \<times> nat \<times> error_entry list" where
  "chunk_files E batchFiles st = fold (chunk_one E) batchFiles st"

text \<open>\<open>vectors[j]\<close>, which is \<open>undefined\<close> past the end of the array.\<close>

definition nth_opt :: "'a list \<Rightarrow> nat \<Rightarrow> 'a option" where
  "nth_opt xs j = (if j < length xs then Some (xs ! j) else None)"

text \<open>The loop over the stale chunks, in slices of \<open>EMBED_BATCH\<close>.\<close>

function embed_stale ::
  "env \<Rightarrow> CodeIndex \<Rightarrow> stale_chunk list \<Rightarrow> nat \<Rightarrow> db \<Rightarrow> (error + nat) \<times> db" where
  "embed_stale E inst stale embedded d =
     (if stale = [] then (Inr embedded, d)
      else (case ci_embedder inst (map buildEmbedText (take EMBED_BATCH stale)) of
              Inl message \<Rightarrow> (Inl (EmbedderError message), d)
            | Inr vectors \<Rightarrow>
                bind_db (batchUpsertEmbeddings (env_faults E) (env_engine E)
                           (map (\<lambda>(s, j). \<lparr>ei_chunkKey = st_chunkKey s,
                                           ei_embedding = nth_opt vectors j,
                                           ei_modelName = ci_embeddingModel inst\<rparr>)
                              (zip (take EMBED_BATCH stale) [0..<length (take EMBED_BATCH stale)])) d)
                  (\<lambda>_ d1. embed_stale E inst (drop EMBED_BATCH stale)
                             (embedded + length vectors) d1)))"
  by pat_completeness auto

termination
  by (relation "measure (\<lambda>(E, inst, stale, embedded, d). length stale)")
     (auto simp: EMBED_BATCH_def)

declare embed_stale.simps [simp del]

text \<open>
  The loop over the files to process, in slices of \<open>FILE_BATCH\<close>: chunk, write, embed.
  Its state: \<open>filesProcessed\<close>, \<open>chunksCreated\<close>, \<open>embedded\<close> and \<open>errors\<close>.
\<close>

function process_batches ::
  "env \<Rightarrow> CodeIndex \<Rightarrow> nat \<Rightarrow> ScannedFile list \<Rightarrow> nat \<times> nat \<times> nat \<times> error_entry list \<Rightarrow> db \<Rightarrow>
   (error + nat \<times> nat \<times> nat \<times> error_entry list) \<times> db" where
  "process_batches E inst codebaseId filesToProcess st d =
     (if filesToProcess = [] then (Inr st, d)
      else
        (let chunked = chunk_files E (take FILE_BATCH filesToProcess)
                         ([], fst st, fst (snd st), snd (snd (snd st)))
         in bind_db (if fst chunked \<noteq> []
                     then batchUpsertAllFileChunks (env_faults E) (env_now E) codebaseId (fst chunked) d
                     else (Inr (), d)) (\<lambda>_ d1.
              bind_db (getStaleEmbeddings (env_faults E) codebaseId (ci_embeddingModel inst) None d1)
                (\<lambda>stale d2.
                   bind_db (embed_stale E inst stale (fst (snd (snd st))) d2) (\<lambda>embedded d3.
                     process_batches E inst codebaseId (drop FILE_BATCH filesToProcess)
                       (fst (snd chunked), fst (snd (snd chunked)), embedded,
                        snd (snd (snd chunked))) d3)))))"
  by pat_completeness auto

termination
  by (relation "measure (\<lambda>(E, inst, codebaseId, filesToProcess, st, d). length filesToProcess)")
     (auto simp: FILE_BATCH_def)

declare process_batches.simps [simp del]

text \<open>
  \<open>index\<close>, for a root directory that is resolved already and whose content is the
  listing. The scan errors are the first entries of \<open>errors\<close>.
\<close>

definition index ::
  "env \<Rightarrow> CodeIndex \<Rightarrow> string \<Rightarrow> string + fs_entry list \<Rightarrow> IndexOptions \<Rightarrow> db \<Rightarrow>
   (error + IndexResult) \<times> db" where
  "index E inst rootDir listing opts d =
     bind_db (getOrCreateCodebase (env_faults E) (env_now E) rootDir d) (\<lambda>codebaseId d1.
       (let scanned = scanDirectory (env_sha256 E) rootDir (io_languages opts) listing
        in bind_db (check_hashes (env_faults E) codebaseId (fst scanned) ([], 0, []) d1) (\<lambda>checked d2.
             bind_db (process_batches E inst codebaseId (snd (snd checked))
                        (0, 0, 0, map ErrorString (snd scanned)) d2) (\<lambda>counted d3.
               bind_db (removeStaleFiles (env_faults E) codebaseId (fst checked) d3) (\<lambda>removed d4.
                 bind_db (rebuildFtsTable (env_faults E) codebaseId d4) (\<lambda>_ d5.
                   bind_db (touchCodebase (env_faults E) (env_now E) codebaseId d5) (\<lambda>_ d6.
                     (Inr \<lparr>ir_files = fst counted, ir_chunks = fst (snd counted),
                            ir_embedded = fst (snd (snd counted)),
                            ir_skipped = fst (snd checked), ir_removed = removed,
                            ir_errors = snd (snd (snd counted)),
                            ir_duration = env_elapsed E\<rparr>, d6))))))))"

subsection \<open>Searching\<close>

text \<open>
  \<open>verifySearchable\<close>. The flag is set before any of the conditions is looked at, so
  the instance that the function leaves has the flag set on every path.
\<close>

definition verifySearchable :: "env \<Rightarrow> CodeIndex \<Rightarrow> db \<Rightarrow> ((error + unit) \<times> db) \<times> CodeIndex" where
  "verifySearchable E inst d =
     (if ci_searchVerified inst then ((Inr (), d), inst)
      else
        (let inst1 = inst\<lparr>ci_searchVerified := True\<rparr>
         in (case env_dbFileSize E of
               None \<Rightarrow> ((Inr (), d), inst1)
             | Some fileSize \<Rightarrow>
                 (if fileSize \<le> 1000000 then ((Inr (), d), inst1)
                  else
                    (bind_db (listCodebases (env_faults E) d) (\<lambda>codebases d1.
                       (if codebases = [] then (Inr (), d1)
                        else if sum_list (map co_chunkCount codebases) > 0 then (Inr (), d1)
                        else (Inl (UnsearchableError fileSize), d1))),
                     inst1)))))"

text \<open>\<open>threshold > 0 ? results.filter((r) => r.score >= threshold) : results\<close>\<close>

definition apply_threshold :: "real \<Rightarrow> SearchResult list \<Rightarrow> SearchResult list" where
  "apply_threshold threshold results =
     (if threshold > 0 then filter (\<lambda>r. sr_score r \<ge> threshold) results else results)"

text \<open>
  \<open>const [queryVec] = await this.embedder([query])\<close>: the first vector, \<open>undefined\<close>
  when the embedder returns none.
\<close>

definition embed_query :: "CodeIndex \<Rightarrow> string \<Rightarrow> db \<Rightarrow> (error + real list option) \<times> db" where
  "embed_query inst query d =
     (case ci_embedder inst [query] of
        Inl message \<Rightarrow> (Inl (EmbedderError message), d)
      | Inr vectors \<Rightarrow> (Inr (case vectors of [] \<Rightarrow> None | v # _ \<Rightarrow> Some v), d))"

text \<open>The body of \<open>search\<close> after the health check.\<close>

definition dispatch ::
  "env \<Rightarrow> CodeIndex \<Rightarrow> string \<Rightarrow> nat \<Rightarrow> real \<Rightarrow> bool \<Rightarrow> SearchMode \<Rightarrow> db \<Rightarrow>
   (error + SearchResult list) \<times> db" where
  "dispatch E inst query limit threshold includeSnippet mode d =
     (if mode = Semantic then
        bind_db (embed_query inst query d) (\<lambda>queryVec d1.
          bind_db (vectorSearch (env_faults E) (env_engine E) queryVec limit includeSnippet d1)
            (\<lambda>results d2. (Inr (apply_threshold threshold results), d2)))
      else
        (let processed = env_preprocessKeywords E query
         in if trim processed = [] then (Inr [], d)
            else
              bind_db (ftsSearch (env_faults E) (env_engine E) processed limit includeSnippet d)
                (\<lambda>ftsResults d1.
                   if mode = Keyword then (Inr (apply_threshold threshold ftsResults), d1)
                   else
                     bind_db (embed_query inst query d1) (\<lambda>queryVec d2.
                       bind_db (vectorSearch (env_faults E) (env_engine E) queryVec limit
                                  includeSnippet d2)
                         (\<lambda>vecResults d3.
                            (Inr (apply_threshold threshold
                                    (rrfMerge ftsResults vecResults limit)), d3))))))"

text \<open>The defaults of the options: \<open>opts?.limit ?? 5\<close> and so on.\<close>

definition limit_of :: "SearchOptions \<Rightarrow> nat" where
  "limit_of opts = (case so_limit opts of None \<Rightarrow> 5 | Some l \<Rightarrow> l)"

definition threshold_of :: "SearchOptions \<Rightarrow> real" where
  "threshold_of opts = (case so_threshold opts of None \<Rightarrow> 0 | Some t \<Rightarrow> t)"

definition includeSnippet_of :: "SearchOptions \<Rightarrow> bool" where
  "includeSnippet_of opts = (case so_includeSnippet opts of None \<Rightarrow> False | Some b \<Rightarrow> b)"

definition mode_of :: "SearchOptions \<Rightarrow> SearchMode" where
  "mode_of opts = (case so_mode opts of None \<Rightarrow> Semantic | Some m \<Rightarrow> m)"

definition search ::
  "env \<Rightarrow> CodeIndex \<Rightarrow> string \<Rightarrow> SearchOptions \<Rightarrow> db \<Rightarrow>
   ((error + SearchResult list) \<times> db) \<times> CodeIndex" where
  "search E inst query opts d =
     (case verifySearchable E inst d of
        ((Inl e, d1), inst1) \<Rightarrow> ((Inl e, d1), inst1)
      | ((Inr u, d1), inst1) \<Rightarrow>
          (dispatch E inst1 query (limit_of opts) (threshold_of opts) (includeSnippet_of opts)
             (mode_of opts) d1, inst1))"

text \<open>
  A sequence of searches on one instance. Each call has its own surroundings, query and
  options and finds the database in a state of its own; the instance passes from call to
  call.
\<close>

fun searches ::
  "CodeIndex \<Rightarrow> (env \<times> string \<times> SearchOptions \<times> db) list \<Rightarrow> (error + SearchResult list) list" where
  "searches inst [] = []"
| "searches inst (c # cs) =
     fst (fst (search (fst c) inst (fst (snd c)) (fst (snd (snd c))) (snd (snd (snd c)))))
       # searches (snd (search (fst c) inst (fst (snd c)) (fst (snd (snd c))) (snd (snd (snd c))))) cs"

text \<open>The error of the health check, among the errors and among the outcomes of a call.\<close>

definition unsearchable_error :: "error \<Rightarrow> bool" where
  "unsearchable_error e = (case e of UnsearchableError n \<Rightarrow> True | _ \<Rightarrow> False)"

definition is_unsearchable :: "error + 'a \<Rightarrow> bool" where
  "is_unsearchable r = (case r of Inl e \<Rightarrow> unsearchable_error e | Inr x \<Rightarrow> False)"

definition on_results ::
  "(SearchResult list \<Rightarrow> SearchResult list) \<Rightarrow> (error + SearchResult list) \<times> db \<Rightarrow>
   (error + SearchResult list) \<times> db" where
  "on_results f r = (case r of (Inl e, d) \<Rightarrow> (Inl e, d) | (Inr rs, d) \<Rightarrow> (Inr (f rs), d))"

section \<open>Example inputs\<close>

text \<open>
  A small repository and its index, for the evaluation of the model on concrete inputs:
  the directory \<open>/repo\<close> with the one file \<open>a.rs\<close>, a database that holds the one chunk of
  that file with an embedding by the model \<open>model-a\<close>, an embedder that maps every text to
  the unit vector \<open>(1, 0)\<close>, and an engine that stores vectors as they are and whose distance
  operator is the cosine distance of unit vectors, 1 minus the inner product. The keyword
  extraction of the example maps the query \<open>the a an\<close> to the empty string, as the test
  of the repository requires of \<open>extractKeywords\<close>.
\<close>

definition cosine_distance :: "real list \<Rightarrow> real list \<Rightarrow> real" where
  "cosine_distance a b = 1 - (\<Sum>(x, y)\<leftarrow>zip a b. x * y)"

definition example_engine :: engine where
  "example_engine =
     \<lparr>eng_vector8 = (\<lambda>v. v),
      eng_vector_distance_cos = (\<lambda>emb q. map_option (cosine_distance emb) q),
      eng_fts_match = (\<lambda>nm sg q. str_includes nm q \<or> str_includes sg q),
      eng_fts_score = (\<lambda>rows nm sg q. 1)\<rparr>"

definition example_chunk_row :: chunk_row where
  "example_chunk_row =
     \<lparr>ch_id = 1, ch_codebase_id = 1, ch_file_path = ''/repo/a.rs'',
      ch_chunk_key = ''/repo/a.rs:1:1'', ch_language = ''rust'', ch_kind = ''function'',
      ch_name = ''foo'', ch_signature = ''fn foo() {}'', ch_snippet = ''fn foo() {}'',
      ch_start_line = 1, ch_end_line = 1, ch_file_hash = ''#fn foo() {}'', ch_indexed_at = 0,
      ch_embedding = Some [-1, 0], ch_embedding_model = ''model-a''\<rparr>"

definition example_tables :: tables where
  "example_tables =
     \<lparr>t_codebases = [\<lparr>cb_id = 1, cb_root_path = ''/repo'', cb_name = ''repo'', cb_indexed_at = 0\<rparr>],
      t_chunks = [example_chunk_row],
      t_indexed_files = [\<lparr>if_id = 1, if_codebase_id = 1, if_file_path = ''/repo/a.rs'',
         if_file_hash = ''#fn foo() {}'', if_chunk_count = 1, if_indexed_at = 0\<rparr>],
      t_fts = [(1, [\<lparr>ft_chunk_id = 1, ft_name = ''foo'', ft_signature = ''fn foo() {}''\<rparr>])],
      t_seq_codebases = 1, t_seq_chunks = 1, t_seq_files = 1\<rparr>"

definition example_db :: db where
  "example_db = \<lparr>db_tables = example_tables, db_snapshot = None, db_calls = 0\<rparr>"

text \<open>The same database as a reader sees it whose view holds no file row and no chunk.\<close>

definition example_locked_db :: db where
  "example_locked_db =
     \<lparr>db_tables = example_tables\<lparr>t_chunks := [], t_indexed_files := []\<rparr>,
      db_snapshot = None, db_calls = 0\<rparr>"

definition example_root :: SyntaxNode where
  "example_root =
     SyntaxNode ''source_file'' True None 0 0 ''fn foo() {}''
       [SyntaxNode ''function_item'' True None 0 0 ''fn foo() {}''
          [SyntaxNode ''identifier'' True (Some ''name'') 0 0 ''foo'' []]]"

definition example_env :: env where
  "example_env =
     \<lparr>env_faults = (\<lambda>n. None), env_engine = example_engine, env_now = 1000, env_elapsed = 7,
      env_sha256 = (\<lambda>content. CHR ''#'' # content),
      env_parse = (\<lambda>config content. Inr (Some example_root)),
      env_preprocessKeywords = (\<lambda>query. if query = ''the a an'' then [] else query),
      env_dbFileSize = Some 4096\<rparr>"

definition example_index :: "string \<Rightarrow> CodeIndex" where
  "example_index model =
     \<lparr>ci_dbPath = ''/tmp/codemogger.db'', ci_embedder = (\<lambda>texts. Inr (map (\<lambda>t. [1, 0]) texts)),
      ci_embeddingModel = model, ci_searchVerified = False\<rparr>"

definition example_listing :: "string + fs_entry list" where
  "example_listing = Inr [FsFile ''a.rs'' (Inr 11) (Inr ''fn foo() {}'')]"

definition no_options :: SearchOptions where
  "no_options = \<lparr>so_limit = None, so_threshold = None, so_includeSnippet = None, so_mode = None\<rparr>"

definition no_index_options :: IndexOptions where
  "no_index_options = \<lparr>io_languages = None, io_verbose = None\<rparr>"

text \<open>The search result for the chunk of the example, with a given score.\<close>

definition example_result :: "real \<Rightarrow> SearchResult" where
  "example_result sc =
     \<lparr>sr_chunkKey = ''/repo/a.rs:1:1'', sr_filePath = ''/repo/a.rs'', sr_name = ''foo'',
      sr_kind = ''function'', sr_signature = ''fn foo() {}'', sr_snippet = [], sr_startLine = 1,
      sr_endLine = 1, sr_score = sc\<rparr>"

chapter \<open>Verification\<close>

section \<open>Rank fusion\<close>

subsection \<open>The two loops\<close>

lemma rrf_from_Nil: "rrf_from k w n [] key = 0" by (simp add: rrf_from_def)
lemma rrf_from_Cons: "rrf_from k w n (r # rs) key =
  (if sr_chunkKey r = key then w / (k + real (n + 1)) else 0) + rrf_from k w (Suc n) rs key"
  by (simp add: rrf_from_def)

lemma get_or_zero_update:
  "get_or_zero (AList.update a v sc) key = (if key = a then v else get_or_zero sc key)"
  by (simp add: get_or_zero_def update_conv')

lemma keys_update: "fst ` set (AList.update a v sc) = insert a (fst ` set sc)"
  using dom_update[of a v sc] by (simp add: dom_map_of_conv_image_fst)

lemma fts_loop_scores:
  "map_of (fst (fts_loop k w rs i (sc, d))) key =
     (if key \<in> sr_chunkKey ` set rs \<or> key \<in> fst ` set sc
      then Some (get_or_zero sc key + rrf_from k w i rs key) else None)"
proof (induction rs arbitrary: i sc d)
  case Nil
  show ?case 
    by (auto simp: rrf_from_Nil get_or_zero_def map_of_eq_None_iff split: option.splits dest: map_of_SomeD weak_map_of_SomeI)
next
  case (Cons r rs)
  show ?case
    by (auto simp: Cons.IH rrf_from_Cons get_or_zero_update keys_update)
qed

lemma vec_loop_scores:
  "map_of (fst (vec_loop k w rs i (sc, d))) key =
     (if key \<in> sr_chunkKey ` set rs \<or> key \<in> fst ` set sc
      then Some (get_or_zero sc key + rrf_from k w i rs key) else None)"
proof (induction rs arbitrary: i sc d)
  case Nil
  show ?case 
    by (auto simp: rrf_from_Nil get_or_zero_def map_of_eq_None_iff split: option.splits dest: map_of_SomeD weak_map_of_SomeI)
next
  case (Cons r rs)
  show ?case
    by (auto simp: Cons.IH rrf_from_Cons get_or_zero_update keys_update)
qed

lemma fts_loop_distinct:
  "distinct (map fst sc) \<Longrightarrow> distinct (map fst (fst (fts_loop k w rs i (sc, d))))"
  by (induction rs arbitrary: i sc d) (simp_all add: distinct_update)

lemma vec_loop_distinct:
  "distinct (map fst sc) \<Longrightarrow> distinct (map fst (fst (vec_loop k w rs i (sc, d))))"
  by (induction rs arbitrary: i sc d) (simp_all add: distinct_update)

lemma fts_loop_keys:
  "fst ` set (fst (fts_loop k w rs i (sc, d))) = fst ` set sc \<union> sr_chunkKey ` set rs"
  by (induction rs arbitrary: i sc d) (auto simp: keys_update)

lemma vec_loop_keys:
  "fst ` set (fst (vec_loop k w rs i (sc, d))) = fst ` set sc \<union> sr_chunkKey ` set rs"
  by (induction rs arbitrary: i sc d) (auto simp: keys_update)

lemma find_app:
  "find P (xs @ ys) = (case find P xs of Some x \<Rightarrow> Some x | None \<Rightarrow> find P ys)"
  by (induction xs) simp_all

lemma fts_loop_data:
  "map_of (snd (fts_loop k w rs i (sc, d))) key =
     (case find (\<lambda>r. sr_chunkKey r = key) (rev rs) of Some r \<Rightarrow> Some r | None \<Rightarrow> map_of d key)"
proof (induction rs arbitrary: i sc d)
  case Nil
  show ?case by simp
next
  case (Cons r rs)
  show ?case
    by (auto simp: Cons.IH find_app update_conv' split: option.splits)
qed

lemma vec_loop_data:
  "map_of (snd (vec_loop k w rs i (sc, d))) key =
     (case map_of d key of Some r \<Rightarrow> Some r | None \<Rightarrow> find (\<lambda>r. sr_chunkKey r = key) rs)"
proof (induction rs arbitrary: i sc d)
  case Nil
  show ?case by (simp split: option.splits)
next
  case (Cons r rs)
  show ?case
    by (auto simp: Cons.IH update_conv' split: option.splits)
qed

lemma vec_loop_data_st:
  "map_of (snd (vec_loop k w rs i st)) key =
     (case map_of (snd st) key of Some r \<Rightarrow> Some r | None \<Rightarrow> find (\<lambda>r. sr_chunkKey r = key) rs)"
  by (cases st) (simp add: vec_loop_data)

lemma vec_loop_scores_st:
  "map_of (fst (vec_loop k w rs i st)) key =
     (if key \<in> sr_chunkKey ` set rs \<or> key \<in> fst ` set (fst st)
      then Some (get_or_zero (fst st) key + rrf_from k w i rs key) else None)"
  by (cases st) (simp add: vec_loop_scores)

lemma loops_data:
  "map_of (snd (vec_loop k wv vec 0 (fts_loop k wt fts 0 ([], [])))) key = rrf_payload fts vec key"
  by (simp add: vec_loop_data_st rrf_payload_def fts_loop_data split: option.splits)

lemma rrf_from_absent:
  "key \<notin> sr_chunkKey ` set xs \<Longrightarrow> rrf_from k w n xs key = 0"
  by (induction xs arbitrary: n) (auto simp: rrf_from_Nil rrf_from_Cons)

lemma loops_scores:
  "map_of (fst (vec_loop k wv vec 0 (fts_loop k wt fts 0 ([], [])))) key =
     (if key \<in> sr_chunkKey ` (set fts \<union> set vec)
      then Some (rrf_from k wt 0 fts key + rrf_from k wv 0 vec key) else None)"
  by (auto simp add: vec_loop_scores_st fts_loop_scores fts_loop_keys get_or_zero_def rrf_from_absent
      split: option.splits)

lemma loops_distinct:
  "distinct (map fst (fst (vec_loop k wv vec 0 (fts_loop k wt fts 0 ([], [])))))"
  using vec_loop_distinct[of "fst (fts_loop k wt fts 0 ([], []))" k wv vec 0 "snd (fts_loop k wt fts 0 ([], []))"]
    fts_loop_distinct[of "[]" k wt fts 0 "[]"] by simp

lemma loops_keys:
  "fst ` set (fst (vec_loop k wv vec 0 (fts_loop k wt fts 0 ([], [])))) = sr_chunkKey ` (set fts \<union> set vec)"
  using vec_loop_keys[of k wv vec 0 "fst (fts_loop k wt fts 0 ([], []))" "snd (fts_loop k wt fts 0 ([], []))"]
  by (auto simp: fts_loop_keys)

lemma rrf_from_at:
  "distinct (map sr_chunkKey xs) \<Longrightarrow> i < length xs \<Longrightarrow>
     rrf_from k w n xs (sr_chunkKey (xs ! i)) = w / (k + real (n + i + 1))"
proof (induction xs arbitrary: n i)
  case Nil
  then show ?case by simp
next
  case (Cons r rs)
  show ?case
  proof (cases i)
    case 0
    with Cons.prems show ?thesis
      by (simp add: rrf_from_Cons rrf_from_absent)
  next
    case (Suc j)
    with Cons.prems have "sr_chunkKey r \<noteq> sr_chunkKey (rs ! j)" by auto
    with Cons.prems Suc Cons.IH[of j "Suc n"] show ?thesis
      by (simp add: rrf_from_Cons)
  qed
qed

lemma with_score_key:
  "map_of data (fst e) = Some row \<Longrightarrow> with_score data e = row\<lparr>sr_score := snd e\<rparr>"
  by (simp add: with_score_def)

lemma find_SomeD: "find P xs = Some x \<Longrightarrow> P x \<and> x \<in> set xs"
  by (induction xs) (auto split: if_splits)

lemma rrf_payload_key:
  "rrf_payload fts vec key = Some row \<Longrightarrow> sr_chunkKey row = key"
  by (auto simp: rrf_payload_def split: option.splits dest: find_SomeD)

lemma rrf_payload_defined:
  "key \<in> sr_chunkKey ` (set fts \<union> set vec) \<Longrightarrow> \<exists>row. rrf_payload fts vec key = Some row"
proof (cases "find (\<lambda>r. sr_chunkKey r = key) (rev fts)")
  case None
  assume "key \<in> sr_chunkKey ` (set fts \<union> set vec)"
  with None have "\<exists>x\<in>set vec. sr_chunkKey x = key"
    by (auto simp: find_None_iff)
  then have "find (\<lambda>r. sr_chunkKey r = key) vec \<noteq> None"
    by (auto simp: find_None_iff)
  with None show ?thesis by (auto simp: rrf_payload_def)
next
  case (Some a)
  then show ?thesis by (simp add: rrf_payload_def)
qed

lemma rrf_payload_src:
  assumes "rrf_payload fts vec key = Some row"
  shows "if key \<in> sr_chunkKey ` set fts then row \<in> set fts else row \<in> set vec"
proof (cases "find (\<lambda>r. sr_chunkKey r = key) (rev fts)")
  case None
  then have "key \<notin> sr_chunkKey ` set fts" by (auto simp: find_None_iff)
  moreover from None assms have "row \<in> set vec"
    by (auto simp: rrf_payload_def dest: find_SomeD)
  ultimately show ?thesis by simp
next
  case (Some a)
  with assms have "row \<in> set fts" "sr_chunkKey row = key"
    by (auto simp: rrf_payload_def dest: find_SomeD)
  then show ?thesis by auto
qed

lemma rrfMerge_unfold:
  "rrfMerge fts vec limit =
     map (with_score (snd (vec_loop 60 0.6 vec 0 (fts_loop 60 0.4 fts 0 ([], [])))))
       (take limit (sort_desc (fused_entries fts vec)))"
  by (simp add: rrfMerge_def rrfMerge_with_def fused_entries_def Let_def)

lemma fused_entries_length:
  "length (fused_entries fts vec) \<le> length fts + length vec"
proof -
  have "length (fused_entries fts vec) = card (fst ` set (fused_entries fts vec))"
    using distinct_card[OF loops_distinct[of 60 "0.6" vec "0.4" fts]]
    by (simp add: fused_entries_def)
  also have "\<dots> = card (sr_chunkKey ` (set fts \<union> set vec))"
    by (simp add: fused_entries_def loops_keys)
  also have "\<dots> \<le> card (set fts \<union> set vec)"
    by (rule card_image_le) simp
  also have "\<dots> \<le> card (set fts) + card (set vec)"
    by (rule card_Un_le)
  also have "\<dots> \<le> length fts + length vec"
    by (simp add: add_mono card_length)
  finally show ?thesis .
qed

lemma rrfMerge_take: "rrfMerge fts vec limit = take limit (rrfMerge_all fts vec)"
  using fused_entries_length[of fts vec]
  by (simp add: rrfMerge_all_def rrfMerge_unfold take_map sort_desc_def)


lemma rrfMerge_all_eq:
  "rrfMerge_all fts vec =
     map (with_score (snd (vec_loop 60 0.6 vec 0 (fts_loop 60 0.4 fts 0 ([], [])))))
       (sort_desc (fused_entries fts vec))"
  using fused_entries_length[of fts vec]
  by (simp add: rrfMerge_all_def rrfMerge_unfold sort_desc_def)

lemma fused_entry:
  assumes "e \<in> set (fused_entries fts vec)"
  shows "\<exists>row. rrf_payload fts vec (fst e) = Some row \<and> sr_chunkKey row = fst e \<and>
           with_score (snd (vec_loop 60 0.6 vec 0 (fts_loop 60 0.4 fts 0 ([], [])))) e
             = row\<lparr>sr_score := snd e\<rparr> \<and>
           snd e = rrf_term 60 0.4 fts (fst e) + rrf_term 60 0.6 vec (fst e) \<and>
           fst e \<in> sr_chunkKey ` (set fts \<union> set vec)"
proof -
  from assms have k: "fst e \<in> sr_chunkKey ` (set fts \<union> set vec)"
    using loops_keys[of 60 "0.6" vec "0.4" fts] by (auto simp: fused_entries_def)
  then obtain row where row: "rrf_payload fts vec (fst e) = Some row"
    using rrf_payload_defined by blast
  have "map_of (fused_entries fts vec) (fst e) = Some (snd e)"
    using assms loops_distinct[of 60 "0.6" vec "0.4" fts]
    by (simp add: fused_entries_def)
  with k have "snd e = rrf_term 60 0.4 fts (fst e) + rrf_term 60 0.6 vec (fst e)"
    by (simp add: fused_entries_def loops_scores rrf_term_def)
  with row k show ?thesis
    by (auto simp: with_score_key loops_data rrf_payload_key)
qed

lemma rrfMerge_all_keys:
  "map sr_chunkKey (rrfMerge_all fts vec) = map fst (sort_desc (fused_entries fts vec))"
proof -
  have "sr_chunkKey (with_score (snd (vec_loop 60 0.6 vec 0 (fts_loop 60 0.4 fts 0 ([], [])))) e) = fst e"
    if "e \<in> set (fused_entries fts vec)" for e
    using fused_entry[OF that] by auto
  then show ?thesis
    by (simp add: rrfMerge_all_eq sort_desc_def)
qed

lemma rrfMerge_all_scores:
  "map sr_score (rrfMerge_all fts vec) = map snd (sort_desc (fused_entries fts vec))"
proof -
  have "sr_score (with_score d e) = snd e" for d e
    by (simp add: with_score_def split: option.splits)
  then show ?thesis
    by (simp add: rrfMerge_all_eq)
qed

lemma rrfMerge_all_distinct: "distinct (map sr_chunkKey (rrfMerge_all fts vec))"
proof -
  have "mset (map fst (sort_desc (fused_entries fts vec))) = mset (map fst (fused_entries fts vec))"
    by (simp add: sort_desc_def)
  then have "distinct (map fst (sort_desc (fused_entries fts vec))) = distinct (map fst (fused_entries fts vec))"
    by (rule mset_eq_imp_distinct_iff)
  then show ?thesis
    using loops_distinct[of 60 "0.6" vec "0.4" fts]
    by (simp add: rrfMerge_all_keys fused_entries_def)
qed

lemma rrfMerge_all_keyset:
  "sr_chunkKey ` set (rrfMerge_all fts vec) = sr_chunkKey ` (set fts \<union> set vec)"
proof -
  have "set (map sr_chunkKey (rrfMerge_all fts vec)) = fst ` set (fused_entries fts vec)"
    by (simp add: rrfMerge_all_keys sort_desc_def)
  then show ?thesis
    using loops_keys[of 60 "0.6" vec "0.4" fts] by (simp add: fused_entries_def)
qed

lemma rrfMerge_all_sorted:
  "sorted_wrt (\<lambda>a b. sr_score a \<ge> sr_score b) (rrfMerge_all fts vec)"
proof -
  have "sorted (map (\<lambda>e. - snd e) (sort_desc (fused_entries fts vec)))"
    by (simp add: sort_desc_def)
  then have "sorted_wrt (\<lambda>x y. x \<ge> y) (map snd (sort_desc (fused_entries fts vec)))"
    by (simp add: sorted_map sorted_wrt_map)
  then have "sorted_wrt (\<lambda>x y. x \<ge> y) (map sr_score (rrfMerge_all fts vec))"
    by (simp add: rrfMerge_all_scores)
  then show ?thesis
    by (simp add: sorted_wrt_map)
qed

lemma rrfMerge_all_member:
  assumes "r \<in> set (rrfMerge_all fts vec)"
  shows "sr_score r = rrf_term 60 0.4 fts (sr_chunkKey r) + rrf_term 60 0.6 vec (sr_chunkKey r) \<and>
         (\<exists>src \<in> (if sr_chunkKey r \<in> sr_chunkKey ` set fts then set fts else set vec).
             sr_chunkKey src = sr_chunkKey r \<and> r = src\<lparr>sr_score := sr_score r\<rparr>)"
proof -
  from assms obtain e where e: "e \<in> set (fused_entries fts vec)"
    and r: "r = with_score (snd (vec_loop 60 0.6 vec 0 (fts_loop 60 0.4 fts 0 ([], [])))) e"
    by (auto simp: rrfMerge_all_eq sort_desc_def)
  from fused_entry[OF e] obtain row where
    row: "rrf_payload fts vec (fst e) = Some row" "sr_chunkKey row = fst e"
      "r = row\<lparr>sr_score := snd e\<rparr>"
      "snd e = rrf_term 60 0.4 fts (fst e) + rrf_term 60 0.6 vec (fst e)"
    using r by auto
  from rrf_payload_src[OF row(1)] row show ?thesis
    by (auto split: if_splits)
qed

lemma rrf_term_at:
  "distinct (map sr_chunkKey xs) \<Longrightarrow> i < length xs \<Longrightarrow>
     rrf_term k w xs (sr_chunkKey (xs ! i)) = w / (k + real (i + 1))"
  using rrf_from_at[of xs i k w 0] by (simp add: rrf_term_def)

lemma rrf_term_absent:
  "key \<notin> sr_chunkKey ` set xs \<Longrightarrow> rrf_term k w xs key = 0"
  by (simp add: rrf_term_def rrf_from_absent)





subsection \<open>The fused result\<close>

text \<open>
  Claim C4. For all text and vector result lists and every limit, \<open>rrfMerge\<close> returns the
  first \<open>limit\<close> rows of a list that holds one row for each distinct chunk key of the two
  lists, sorted by descending fused score. The fused score of a key is the sum, over the
  lists that hold the key, of \<open>w / (60 + rank)\<close> with 1-based ranks and the weights 0.4
  (text) and 0.6 (vector): \<open>rrf_term\<close> adds one such quotient for each position of the key
  in a list, which for a list of distinct keys is the single quotient at the key's rank
  and 0 for a key the list does not hold. All fields of a row but the score come from a
  text-side row when the text list holds the key, else from a vector-side row.
\<close>

theorem rrfMerge_fusion:
  "rrfMerge fts vec limit = take limit (rrfMerge_all fts vec) \<and>
   distinct (map sr_chunkKey (rrfMerge_all fts vec)) \<and>
   sr_chunkKey ` set (rrfMerge_all fts vec) = sr_chunkKey ` (set fts \<union> set vec) \<and>
   (\<forall>r \<in> set (rrfMerge_all fts vec).
       sr_score r = rrf_term 60 0.4 fts (sr_chunkKey r) + rrf_term 60 0.6 vec (sr_chunkKey r) \<and>
       (\<exists>src \<in> (if sr_chunkKey r \<in> sr_chunkKey ` set fts then set fts else set vec).
           sr_chunkKey src = sr_chunkKey r \<and> r = src\<lparr>sr_score := sr_score r\<rparr>)) \<and>
   sorted_wrt (\<lambda>a b. sr_score a \<ge> sr_score b) (rrfMerge_all fts vec) \<and>
   (\<forall>xs w. distinct (map sr_chunkKey xs) \<longrightarrow>
       (\<forall>i < length xs. rrf_term 60 w xs (sr_chunkKey (xs ! i)) = w / (60 + real (i + 1))) \<and>
       (\<forall>key. key \<notin> sr_chunkKey ` set xs \<longrightarrow> rrf_term 60 w xs key = 0))"
proof (intro conjI)
  show "rrfMerge fts vec limit = take limit (rrfMerge_all fts vec)"
    by (rule rrfMerge_take)
  show "distinct (map sr_chunkKey (rrfMerge_all fts vec))"
    by (rule rrfMerge_all_distinct)
  show "sr_chunkKey ` set (rrfMerge_all fts vec) = sr_chunkKey ` (set fts \<union> set vec)"
    by (rule rrfMerge_all_keyset)
  show "\<forall>r \<in> set (rrfMerge_all fts vec).
       sr_score r = rrf_term 60 0.4 fts (sr_chunkKey r) + rrf_term 60 0.6 vec (sr_chunkKey r) \<and>
       (\<exists>src \<in> (if sr_chunkKey r \<in> sr_chunkKey ` set fts then set fts else set vec).
           sr_chunkKey src = sr_chunkKey r \<and> r = src\<lparr>sr_score := sr_score r\<rparr>)"
    using rrfMerge_all_member by blast
  show "sorted_wrt (\<lambda>a b. sr_score a \<ge> sr_score b) (rrfMerge_all fts vec)"
    by (rule rrfMerge_all_sorted)
  show "\<forall>xs w. distinct (map sr_chunkKey xs) \<longrightarrow>
       (\<forall>i < length xs. rrf_term 60 w xs (sr_chunkKey (xs ! i)) = w / (60 + real (i + 1))) \<and>
       (\<forall>key. key \<notin> sr_chunkKey ` set xs \<longrightarrow> rrf_term 60 w xs key = 0)"
    using rrf_term_at rrf_term_absent by blast
qed

theorem rrfMerge_fusion_witness:
  "rrfMerge [result ''a'' 1, result ''b'' 1, result ''c'' 1]
            [result ''b'' 1, result ''a'' 1, result ''d'' 1] 2
     = [(result ''b'' 1)\<lparr>sr_score := 0.4 / 62 + 0.6 / 61\<rparr>,
        (result ''a'' 1)\<lparr>sr_score := 0.4 / 61 + 0.6 / 62\<rparr>] \<and>
   map sr_chunkKey (rrfMerge_all [result ''a'' 1, result ''b'' 1, result ''c'' 1]
            [result ''b'' 1, result ''a'' 1, result ''d'' 1]) = [''b'', ''a'', ''d'', ''c''] \<and>
   distinct (map sr_chunkKey [result ''a'' 1, result ''b'' 1, result ''c'' 1]) \<and>
   rrf_term 60 0.4 [result ''a'' 1, result ''b'' 1, result ''c'' 1] ''b'' = 0.4 / 62 \<and>
   rrf_term 60 0.6 [result ''b'' 1, result ''a'' 1, result ''d'' 1] ''c'' = 0"
  using rrfMerge_fusion[of "[result ''a'' 1, result ''b'' 1, result ''c'' 1]"
      "[result ''b'' 1, result ''a'' 1, result ''d'' 1]" 2]
  by (simp add: rrfMerge_all_def rrfMerge_def rrfMerge_with_def result_def get_or_zero_def
      sort_desc_def with_score_def rrf_term_def rrf_from_def)



section \<open>Search\<close>

subsection \<open>Errors of the dispatch\<close>

lemma bind_db_simps [simp]:
  "bind_db (Inl e, d) f = (Inl e, d)"
  "bind_db (Inr a, d) f = f a d"
  by (simp_all add: bind_db_def)

lemma is_unsearchable_simps [simp]:
  "is_unsearchable (Inr x) = False"
  "is_unsearchable (Inl e) = unsearchable_error e"
  by (simp_all add: is_unsearchable_def)

lemma unsearchable_error_simps [simp]:
  "unsearchable_error (StorageError m) = False"
  "unsearchable_error (EmbedderError m) = False"
  "unsearchable_error (UnsearchableError n) = True"
  by (simp_all add: unsearchable_error_def)

lemma bind_db_searchable:
  assumes "\<not> is_unsearchable (fst m)"
    and "\<And>a d. \<not> is_unsearchable (fst (f a d))"
  shows "\<not> is_unsearchable (fst (bind_db m f))"
  using assms by (cases m; cases "fst m") (auto simp: bind_db_def)

lemma db_call_searchable: "\<not> is_unsearchable (fst (db_call F f d))"
  by (simp add: db_call_def split: option.splits)

lemma db_query_searchable: "\<not> is_unsearchable (fst (db_query F f d))"
  by (simp add: db_query_def db_call_searchable)

lemma vectorSearch_searchable:
  "\<not> is_unsearchable (fst (vectorSearch F eng qv limit inc d))"
  unfolding vectorSearch_def
  by (rule bind_db_searchable) (simp_all add: db_query_searchable)

lemma collect_matches_searchable:
  "fst (fst (collect_matches F inc scores acc d)) = Some e \<Longrightarrow> \<not> unsearchable_error e"
proof (induction scores arbitrary: acc d)
  case Nil
  then show ?case by simp
next
  case (Cons m scores)
  show ?case
  proof (cases "db_query F (\<lambda>t. find (\<lambda>r. ch_id r = fst m) (t_chunks t)) d")
    case (Pair r d1)
    show ?thesis
    proof (cases r)
      case (Inl e')
      with Pair Cons.prems db_query_searchable[of F "\<lambda>t. find (\<lambda>r. ch_id r = fst m) (t_chunks t)" d]
      show ?thesis by simp
    next
      case (Inr row)
      with Pair Cons.prems show ?thesis
        by (auto dest: Cons.IH)
    qed
  qed
qed

lemma search_table_searchable:
  "fst (fst (search_table F eng q limit inc rows acc d)) = Some e \<Longrightarrow> \<not> unsearchable_error e"
proof (cases "db_query F (\<lambda>t. select_matches eng q limit rows) d")
  case (Pair r d1)
  assume a: "fst (fst (search_table F eng q limit inc rows acc d)) = Some e"
  show ?thesis
  proof (cases r)
    case (Inl e')
    with Pair a db_query_searchable[of F "\<lambda>t. select_matches eng q limit rows" d]
    show ?thesis by (simp add: search_table_def)
  next
    case (Inr scores)
    with Pair a show ?thesis
      by (auto simp: search_table_def dest: collect_matches_searchable)
  qed
qed

lemma search_codebases_searchable:
  "\<not> is_unsearchable (fst (search_codebases F eng q limit inc ids acc d))"
proof (induction ids arbitrary: acc d)
  case Nil
  show ?case by simp
next
  case (Cons i ids)
  show ?case
    unfolding search_codebases.simps
  proof (rule bind_db_searchable)
    show "\<not> is_unsearchable (fst (db_query F (\<lambda>t. map_of (t_fts t) i) d))"
      by (rule db_query_searchable)
  next
    fix tbl d1
    show "\<not> is_unsearchable (fst (case tbl of
                None \<Rightarrow> search_codebases F eng q limit inc ids acc d1
              | Some rows \<Rightarrow>
                  (case search_table F eng q limit inc rows acc d1 of
                     ((None, results), d2) \<Rightarrow> search_codebases F eng q limit inc ids results d2
                   | ((Some e, results), d2) \<Rightarrow>
                       if fts_not_built e then search_codebases F eng q limit inc ids results d2
                       else (Inl e, d2))))"
    proof (cases tbl)
      case None
      then show ?thesis by (simp add: Cons.IH)
    next
      case (Some rows)
      show ?thesis
      proof (cases "search_table F eng q limit inc rows acc d1")
        case (Pair er d2)
        obtain eo results where er: "er = (eo, results)" by (cases er)
        show ?thesis
        proof (cases eo)
          case None
          with Some Pair er show ?thesis by (simp add: Cons.IH)
        next
          case (Some e)
          with Pair er search_table_searchable[of F eng q limit inc rows acc d1 e]
          have "\<not> unsearchable_error e" by simp
          with \<open>tbl = Some rows\<close> Some Pair er show ?thesis
            by (simp add: Cons.IH)
        qed
      qed
    qed
  qed
qed

lemma ftsSearch_searchable:
  "\<not> is_unsearchable (fst (ftsSearch F eng q limit inc d))"
  unfolding ftsSearch_def
  by (intro bind_db_searchable db_query_searchable search_codebases_searchable) simp

lemma embed_query_searchable:
  "\<not> is_unsearchable (fst (embed_query inst q d))"
  by (simp add: embed_query_def split: sum.splits)

lemma dispatch_searchable:
  "\<not> is_unsearchable (fst (dispatch E inst q limit threshold inc mode d))"
proof (cases "mode = Semantic")
  case True
  then show ?thesis
    unfolding dispatch_def
    by (simp del: bind_db_simps)
       (intro bind_db_searchable embed_query_searchable vectorSearch_searchable, simp)
next
  case False
  show ?thesis
  proof (cases "trim (env_preprocessKeywords E q) = []")
    case True
    with False show ?thesis by (simp add: dispatch_def)
  next
    case nonempty: False
    show ?thesis
    proof (cases "mode = Keyword")
      case True
      with nonempty show ?thesis
        unfolding dispatch_def
        by (simp del: bind_db_simps) (intro bind_db_searchable ftsSearch_searchable, simp)
    next
      case hybrid: False
      with False nonempty show ?thesis
        unfolding dispatch_def
        by (simp del: bind_db_simps)
           (intro bind_db_searchable ftsSearch_searchable embed_query_searchable
              vectorSearch_searchable, simp)
    qed
  qed
qed


subsection \<open>The health check\<close>

lemma apply_threshold_zero [simp]: "apply_threshold 0 rs = rs"
  by (simp add: apply_threshold_def)

lemma apply_threshold_Nil [simp]: "apply_threshold t [] = []"
  by (simp add: apply_threshold_def)

lemma verifySearchable_flag: "ci_searchVerified (snd (verifySearchable E inst d))"
  by (simp add: verifySearchable_def Let_def split: option.splits)

lemma verifySearchable_verified:
  "ci_searchVerified inst \<Longrightarrow> verifySearchable E inst d = ((Inr (), d), inst)"
  by (simp add: verifySearchable_def)

lemma search_flag: "ci_searchVerified (snd (search E inst query opts d))"
  using verifySearchable_flag[of E inst d]
  by (auto simp: search_def split: prod.splits sum.splits)

lemma search_verified:
  "ci_searchVerified inst \<Longrightarrow>
     search E inst query opts d =
       (dispatch E inst query (limit_of opts) (threshold_of opts) (includeSnippet_of opts)
          (mode_of opts) d, inst)"
  by (simp add: search_def verifySearchable_verified)

lemma searches_verified:
  "ci_searchVerified inst \<Longrightarrow> filter is_unsearchable (searches inst calls) = []"
proof (induction calls arbitrary: inst)
  case Nil
  show ?case by simp
next
  case (Cons c cs)
  from Cons.prems show ?case
    using search_flag[of "fst c" inst "fst (snd c)" "fst (snd (snd c))" "snd (snd (snd c))"]
    by (simp add: Cons.IH search_verified dispatch_searchable)
qed


text \<open>
  Claim C10. On one instance the error of the health check is raised at most once: in
  every sequence of searches on an instance, whatever the surroundings of each call, at
  most one call ends with that error. The reason is that \<open>verifySearchable\<close> leaves the
  flag set on every path, also when it throws; so when a search ends with that error,
  every later search on the instance it leaves is the dispatch for its query and
  options, without a health check.
\<close>

theorem unsearchable_at_most_once:
  "length (filter is_unsearchable (searches inst calls)) \<le> 1 \<and>
   ci_searchVerified (snd (verifySearchable E inst d)) \<and>
   (is_unsearchable (fst (fst (search E inst query opts d))) \<longrightarrow>
      (\<forall>E' query' opts' d'.
          search E' (snd (search E inst query opts d)) query' opts' d' =
            (dispatch E' (snd (search E inst query opts d)) query' (limit_of opts')
               (threshold_of opts') (includeSnippet_of opts') (mode_of opts') d',
             snd (search E inst query opts d))))"
proof (intro conjI)
  show "length (filter is_unsearchable (searches inst calls)) \<le> 1"
  proof (cases calls)
    case Nil
    then show ?thesis by simp
  next
    case (Cons c cs)
    then show ?thesis
      using search_flag[of "fst c" inst "fst (snd c)" "fst (snd (snd c))" "snd (snd (snd c))"]
      by (simp add: searches_verified)
  qed
  show "ci_searchVerified (snd (verifySearchable E inst d))"
    by (rule verifySearchable_flag)
  show "is_unsearchable (fst (fst (search E inst query opts d))) \<longrightarrow>
      (\<forall>E' query' opts' d'.
          search E' (snd (search E inst query opts d)) query' opts' d' =
            (dispatch E' (snd (search E inst query opts d)) query' (limit_of opts')
               (threshold_of opts') (includeSnippet_of opts') (mode_of opts') d',
             snd (search E inst query opts d)))"
    using search_flag[of E inst query opts d] by (simp add: search_verified)
qed


lemma example_health_fails:
  "search (example_env\<lparr>env_dbFileSize := Some 2000000\<rparr>) (example_index m) q no_options
     example_locked_db =
   ((Inl (UnsearchableError 2000000), example_locked_db\<lparr>db_calls := 1\<rparr>),
    (example_index m)\<lparr>ci_searchVerified := True\<rparr>)"
  by (simp add: search_def verifySearchable_def listCodebases_def db_query_def db_call_def
      select_codebases_def example_env_def example_index_def example_locked_db_def
      example_tables_def)

lemma example_vector_search_nothing:
  "vectorSearch (\<lambda>n. None) example_engine qv 5 False example_locked_db =
     (Inr [], example_locked_db\<lparr>db_calls := 1\<rparr>)"
  by (simp add: vectorSearch_def db_query_def db_call_def select_nearest_def
      example_locked_db_def example_tables_def List.map_filter_def)

theorem unsearchable_at_most_once_witness:
  "is_unsearchable (fst (fst (search (example_env\<lparr>env_dbFileSize := Some 2000000\<rparr>)
      (example_index ''model-a'') ''foo'' no_options example_locked_db))) \<and>
   fst (fst (search (example_env\<lparr>env_dbFileSize := Some 2000000\<rparr>)
      (snd (search (example_env\<lparr>env_dbFileSize := Some 2000000\<rparr>)
         (example_index ''model-a'') ''foo'' no_options example_locked_db))
      ''foo'' no_options example_locked_db)) = Inr []"
proof -
  let ?E = "example_env\<lparr>env_dbFileSize := Some 2000000\<rparr>"
  let ?first = "search ?E (example_index ''model-a'') ''foo'' no_options example_locked_db"
  have first: "is_unsearchable (fst (fst ?first))"
    by (simp add: example_health_fails)
  have inst: "snd ?first = (example_index ''model-a'')\<lparr>ci_searchVerified := True\<rparr>"
    by (simp add: example_health_fails)
  have d: "fst (dispatch ?E ((example_index ''model-a'')\<lparr>ci_searchVerified := True\<rparr>) ''foo''
          (limit_of no_options) (threshold_of no_options) (includeSnippet_of no_options)
          (mode_of no_options) example_locked_db) = Inr []"
    by (simp add: dispatch_def mode_of_def limit_of_def threshold_of_def includeSnippet_of_def
        no_options_def embed_query_def)
       (simp add: example_env_def example_index_def example_vector_search_nothing)
  from unsearchable_at_most_once[where inst = "example_index ''model-a''" and calls = "[]"
      and E = ?E and d = example_locked_db and query = "''foo''" and opts = no_options]
  have "is_unsearchable (fst (fst ?first)) \<longrightarrow>
      (\<forall>E' query' opts' d'.
          search E' (snd ?first) query' opts' d' =
            (dispatch E' (snd ?first) query' (limit_of opts')
               (threshold_of opts') (includeSnippet_of opts') (mode_of opts') d', snd ?first))"
    by (rule conjunct2[OF conjunct2])
  with first have "search ?E (snd ?first) ''foo'' no_options example_locked_db =
       (dispatch ?E (snd ?first) ''foo'' (limit_of no_options)
               (threshold_of no_options) (includeSnippet_of no_options) (mode_of no_options)
               example_locked_db, snd ?first)"
    by blast
  then have "fst (fst (search ?E (snd ?first) ''foo'' no_options example_locked_db)) = Inr []"
    by (simp only: inst d fst_conv)
  with first show ?thesis by (rule conjI)
qed

subsection \<open>Hybrid search without keywords\<close>

lemma dispatch_hybrid_no_keywords:
  "trim (env_preprocessKeywords E query) = [] \<Longrightarrow>
     dispatch E inst query limit threshold inc Hybrid d = (Inr [], d)"
  by (simp add: dispatch_def)


lemma example_health_ok:
  "verifySearchable example_env (example_index m) example_db =
     ((Inr (), example_db), (example_index m)\<lparr>ci_searchVerified := True\<rparr>)"
  by (simp add: verifySearchable_def example_env_def example_index_def)

lemma example_vector_search:
  "vectorSearch (\<lambda>n. None) example_engine (Some [1, 0]) 5 False example_db =
     (Inr [example_result (- 1)], example_db\<lparr>db_calls := 1\<rparr>)"
  by (simp add: vectorSearch_def db_query_def db_call_def select_nearest_def example_db_def
      example_tables_def example_chunk_row_def example_engine_def cosine_distance_def
      List.map_filter_def result_of_row_def example_result_def)

lemma example_semantic_search:
  "fst (fst (search example_env (example_index ''model-a'') q
       (no_options\<lparr>so_mode := Some Semantic, so_threshold := Some 0\<rparr>) example_db)) =
     Inr [example_result (- 1)]"
  by (simp add: search_def example_health_ok dispatch_def mode_of_def no_options_def limit_of_def
        threshold_of_def includeSnippet_of_def embed_query_def)
     (simp add: example_env_def example_index_def example_vector_search)

text \<open>
  Claim C2, evaluated on the example. The query \<open>the a an\<close> has no keywords. The semantic
  search for it returns the chunk of the example, and the fusion of the empty text list
  with that result holds one row; the hybrid search for it returns the empty list.
\<close>

theorem hybrid_without_keywords_returns_nothing:
  "trim (env_preprocessKeywords example_env ''the a an'') = [] \<and>
   fst (fst (search example_env (example_index ''model-a'') ''the a an''
       (no_options\<lparr>so_mode := Some Hybrid\<rparr>) example_db)) = Inr [] \<and>
   fst (fst (search example_env (example_index ''model-a'') ''the a an''
       (no_options\<lparr>so_mode := Some Semantic, so_threshold := Some 0\<rparr>) example_db)) =
     Inr [example_result (- 1)] \<and>
   rrfMerge [] [example_result (- 1)] 5 = [example_result (0.6 / 61)]"
proof -
  have k: "trim (env_preprocessKeywords example_env ''the a an'') = []"
    by (simp add: example_env_def trim_def)
  have "fst (fst (search example_env (example_index ''model-a'') ''the a an''
       (no_options\<lparr>so_mode := Some Hybrid\<rparr>) example_db)) = Inr []"
    by (simp add: search_def example_health_ok dispatch_hybrid_no_keywords[OF k] mode_of_def
        no_options_def)
  moreover have "rrfMerge [] [example_result (- 1)] 5 = [example_result (0.6 / 61)]"
    by (simp add: rrfMerge_def rrfMerge_with_def example_result_def get_or_zero_def
        sort_desc_def with_score_def)
  ultimately show ?thesis
    using k example_semantic_search[of "''the a an''"] by simp
qed

subsection \<open>The threshold\<close>

lemma on_results_bind:
  "on_results f (bind_db m g) = bind_db m (\<lambda>a d. on_results f (g a d))"
  by (cases m; cases "fst m") (auto simp: bind_db_def on_results_def)

lemma on_results_simps [simp]:
  "on_results f (Inl e, d) = (Inl e, d)"
  "on_results f (Inr rs, d) = (Inr (f rs), d)"
  by (simp_all add: on_results_def)

lemma dispatch_threshold:
  "dispatch E inst query limit threshold inc mode d =
     on_results (apply_threshold threshold) (dispatch E inst query limit 0 inc mode d)"
  by (cases mode) (simp_all add: dispatch_def on_results_bind Let_def del: bind_db_simps)

lemma search_threshold:
  "search E inst query (opts\<lparr>so_threshold := Some threshold\<rparr>) d =
     (on_results (apply_threshold threshold) (fst (search E inst query (opts\<lparr>so_threshold := None\<rparr>) d)),
      snd (search E inst query (opts\<lparr>so_threshold := None\<rparr>) d))"
proof -
  obtain r d1 inst1 where v: "verifySearchable E inst d = ((r, d1), inst1)"
    by (metis surj_pair)
  show ?thesis
  proof (cases r)
    case (Inl e)
    with v show ?thesis by (simp add: search_def)
  next
    case (Inr u)
    with v show ?thesis
      using dispatch_threshold[of E inst1 query "limit_of opts" threshold "includeSnippet_of opts" "mode_of opts" d1]
      by (simp add: search_def limit_of_def threshold_of_def includeSnippet_of_def mode_of_def)
  qed
qed


text \<open>
  Claim C3, as the code has it. For every mode and every threshold the result of a
  search is the result of the same search without a threshold, filtered by
  \<open>score \<ge> threshold\<close> when the threshold is positive and left as it is otherwise. So for
  a positive threshold every returned result has a score of at least the threshold and
  the filter is the last step; at the threshold 0 no filter is applied.
\<close>

theorem threshold_applied_last:
  "search E inst query (opts\<lparr>so_threshold := Some threshold\<rparr>) d =
     (on_results (if 0 < threshold then filter (\<lambda>r. threshold \<le> sr_score r) else (\<lambda>rs. rs))
        (fst (search E inst query (opts\<lparr>so_threshold := None\<rparr>) d)),
      snd (search E inst query (opts\<lparr>so_threshold := None\<rparr>) d)) \<and>
   (0 < threshold \<longrightarrow>
      (\<forall>rs. fst (fst (search E inst query (opts\<lparr>so_threshold := Some threshold\<rparr>) d)) = Inr rs \<longrightarrow>
         (\<forall>r \<in> set rs. threshold \<le> sr_score r)))"
proof -
  have eq: "apply_threshold threshold =
      (if 0 < threshold then filter (\<lambda>r. threshold \<le> sr_score r) else (\<lambda>rs. rs))"
    by (auto simp: apply_threshold_def fun_eq_iff)
  have first: "search E inst query (opts\<lparr>so_threshold := Some threshold\<rparr>) d =
     (on_results (if 0 < threshold then filter (\<lambda>r. threshold \<le> sr_score r) else (\<lambda>rs. rs))
        (fst (search E inst query (opts\<lparr>so_threshold := None\<rparr>) d)),
      snd (search E inst query (opts\<lparr>so_threshold := None\<rparr>) d))"
    using search_threshold[where E = E and inst = inst and query = query and opts = opts
        and threshold = threshold and d = d] by (simp only: eq)
  have "\<forall>r \<in> set rs. threshold \<le> sr_score r"
    if "0 < threshold"
      and "fst (fst (search E inst query (opts\<lparr>so_threshold := Some threshold\<rparr>) d)) = Inr rs"
    for rs
  proof -
    obtain r0 d0 where r0: "fst (search E inst query (opts\<lparr>so_threshold := None\<rparr>) d) = (r0, d0)"
      by (cases "fst (search E inst query (opts\<lparr>so_threshold := None\<rparr>) d)")
    from that first r0 show ?thesis
      by (cases r0) auto
  qed
  with first show ?thesis by blast
qed

lemma example_keyword_search:
  "fst (fst (search example_env (example_index ''model-a'') ''foo''
       (no_options\<lparr>so_mode := Some Semantic, so_threshold := Some t\<rparr>) example_db)) =
     Inr (apply_threshold t [example_result (- 1)])"
  by (simp add: search_def example_health_ok dispatch_def mode_of_def no_options_def limit_of_def
        threshold_of_def includeSnippet_of_def embed_query_def)
     (simp add: example_env_def example_index_def example_vector_search)

lemma fst_on_results:
  "fst (on_results f p) = (case fst p of Inl e \<Rightarrow> Inl e | Inr rs \<Rightarrow> Inr (f rs))"
  by (cases p; cases "fst p") (auto simp: on_results_def)

lemma example_semantic:
  "fst (fst (search example_env (example_index ''model-a'') q
       \<lparr>so_limit = None, so_threshold = t, so_includeSnippet = None, so_mode = Some Semantic\<rparr>
       example_db)) =
     Inr (apply_threshold (case t of None \<Rightarrow> 0 | Some x \<Rightarrow> x) [example_result (- 1)])"
  by (simp add: search_def example_health_ok dispatch_def mode_of_def limit_of_def
        threshold_of_def includeSnippet_of_def embed_query_def)
     (simp add: example_env_def example_index_def example_vector_search)

theorem threshold_applied_last_witness:
  "(0::real) < 1 / 2 \<and>
   fst (fst (search example_env (example_index ''model-a'') ''foo''
       (no_options\<lparr>so_mode := Some Semantic, so_threshold := Some (1 / 2)\<rparr>) example_db)) = Inr [] \<and>
   fst (fst (search example_env (example_index ''model-a'') ''foo''
       (no_options\<lparr>so_mode := Some Semantic, so_threshold := None\<rparr>) example_db)) =
     Inr [example_result (- 1)]"
proof -
  let ?opts = "no_options\<lparr>so_mode := Some Semantic\<rparr>"
  have plain: "fst (fst (search example_env (example_index ''model-a'') ''foo''
       (?opts\<lparr>so_threshold := None\<rparr>) example_db)) = Inr [example_result (- 1)]"
    using example_semantic[of "''foo''" None] by (simp add: no_options_def)
  from threshold_applied_last[where E = example_env and inst = "example_index ''model-a''"
      and query = "''foo''" and opts = ?opts and threshold = "1 / 2" and d = example_db]
  have "search example_env (example_index ''model-a'') ''foo'' (?opts\<lparr>so_threshold := Some (1 / 2)\<rparr>)
          example_db =
     (on_results (if (0::real) < 1 / 2 then filter (\<lambda>r. 1 / 2 \<le> sr_score r) else (\<lambda>rs. rs))
        (fst (search example_env (example_index ''model-a'') ''foo'' (?opts\<lparr>so_threshold := None\<rparr>)
           example_db)),
      snd (search example_env (example_index ''model-a'') ''foo'' (?opts\<lparr>so_threshold := None\<rparr>)
           example_db))"
    by (rule conjunct1)
  then have "fst (fst (search example_env (example_index ''model-a'') ''foo''
       (?opts\<lparr>so_threshold := Some (1 / 2)\<rparr>) example_db)) = Inr []"
    by (simp add: fst_on_results plain example_result_def)
  with plain show ?thesis by simp
qed

text \<open>
  The claim as it is written fails at the threshold 0: the semantic search of the
  example returns a result whose score is negative.
\<close>

theorem threshold_zero_counterexample:
  "fst (fst (search example_env (example_index ''model-a'') ''foo''
       (no_options\<lparr>so_mode := Some Semantic, so_threshold := Some 0\<rparr>) example_db)) =
     Inr [example_result (- 1)] \<and>
   \<not> (0 \<le> sr_score (example_result (- 1)))"
  using example_keyword_search[of 0] by (simp add: example_result_def)


end
